theory Spec2Isabelle
  imports Complex_Main "HOL-Library.AList"
begin

section \<open>JavaScript basics shared by the models\<close>

text \<open>
  Template literals such as \<^verbatim>\<open>`${col}-${row}`\<close> render a non-negative integer in
  decimal. \<open>string_of_nat\<close> is that rendering (exact for every array index, which is
  below \<open>2^32\<close>).
\<close>

definition digit_char :: "nat \<Rightarrow> char" where
  "digit_char d = char_of (48 + d)"

function string_of_nat :: "nat \<Rightarrow> string" where
  "string_of_nat n =
     (if n < 10 then [digit_char n]
      else string_of_nat (n div 10) @ [digit_char (n mod 10)])"
  by pat_completeness auto
termination
  by (relation "measure (\<lambda>n. n)") auto

declare string_of_nat.simps [simp del]

text \<open>The slot key of the grid cell in column \<open>col\<close> and row \<open>row\<close>: \<^verbatim>\<open>`${col}-${row}`\<close>.\<close>

definition slotKey :: "nat \<Rightarrow> nat \<Rightarrow> string" where
  "slotKey col row = string_of_nat col @ ''-'' @ string_of_nat row"

text \<open>Reading a decimal rendering back, used to show that distinct numbers render differently.\<close>

definition nat_of_string :: "string \<Rightarrow> nat" where
  "nat_of_string s = foldl (\<lambda>a c. 10 * a + (of_char c - 48)) 0 s"

section \<open>Container contents: \<^verbatim>\<open>getContainerContents\<close>\<close>

text \<open>
  An item document as far as \<^verbatim>\<open>getContainerContents\<close> reads it. \<open>None\<close> is a
  missing (undefined) field; \<open>it_uses\<close> is \<^verbatim>\<open>item.system?.uses\<close> with its
  \<^verbatim>\<open>value\<close> and \<^verbatim>\<open>max\<close>.
\<close>

record item_doc =
  it_uuid :: string
  it_name :: string
  it_img :: string
  it_quantity :: "int option"
  it_uses :: "(int option \<times> int option) option"

text \<open>
  An element of \<^verbatim>\<open>system.contents\<close>: an object with a \<^verbatim>\<open>uuid\<close> field (possibly
  missing) or a plain UUID string.
\<close>

datatype content = ContentObj "string option" | ContentStr string

text \<open>What the host's \<^verbatim>\<open>fromUuid\<close> is called with: a string, or the content object itself.\<close>

datatype uuid_arg = UuidStr string | UuidObj

text \<open>\<^verbatim>\<open>content.uuid || content\<close>: the empty string and undefined are falsy.\<close>

fun content_ref :: "content \<Rightarrow> uuid_arg" where
  "content_ref (ContentObj (Some u)) = (if u = [] then UuidObj else UuidStr u)"
| "content_ref (ContentObj None) = UuidObj"
| "content_ref (ContentStr s) = UuidStr s"

record cell_uses =
  u_value :: int
  u_max :: int

record cell =
  c_uuid :: string
  c_name :: string
  c_img :: string
  c_type :: string
  c_quantity :: int
  c_uses :: "cell_uses option"

text \<open>\<^verbatim>\<open>x || d\<close> on an optional number: undefined and 0 are falsy.\<close>

definition num_or :: "int option \<Rightarrow> int \<Rightarrow> int" where
  "num_or x d = (case x of None \<Rightarrow> d | Some v \<Rightarrow> if v = 0 then d else v)"

definition to_cell :: "item_doc \<Rightarrow> cell" where
  "to_cell item =
     \<lparr> c_uuid = it_uuid item,
       c_name = it_name item,
       c_img = it_img item,
       c_type = ''Item'',
       c_quantity = num_or (it_quantity item) 1,
       c_uses = (case it_uses item of
                   None \<Rightarrow> None
                 | Some (v, m) \<Rightarrow> Some \<lparr> u_value = num_or v 0, u_max = num_or m 0 \<rparr>) \<rparr>"

record container_item =
  ci_contents :: "content list option"

text \<open>
  A JavaScript object used as a dictionary keeps its keys distinct and in insertion
  order: an association list, with \<^verbatim>\<open>obj[k] = v\<close> as \<open>AList.update k v\<close>.
\<close>

record grid_data =
  g_rows :: nat
  g_cols :: nat
  g_items :: "(string \<times> cell) list"

text \<open>
  The \<^verbatim>\<open>for (const content of contents)\<close> loop, with its two variables \<open>items\<close>
  and \<open>index\<close>; \<^verbatim>\<open>continue\<close> on an unresolved reference leaves both unchanged.
\<close>

fun fill_contents ::
  "(uuid_arg \<Rightarrow> item_doc option) \<Rightarrow> content list \<Rightarrow> (string \<times> cell) list \<Rightarrow> nat
     \<Rightarrow> (string \<times> cell) list \<times> nat" where
  "fill_contents fromUuid [] items index = (items, index)"
| "fill_contents fromUuid (content # rest) items index =
     (case fromUuid (content_ref content) of
        None \<Rightarrow> fill_contents fromUuid rest items index
      | Some item \<Rightarrow>
          (let col = index mod 5;
               row = index div 5
           in fill_contents fromUuid rest
                (AList.update (slotKey col row) (to_cell item) items) (index + 1)))"

definition getContainerContents ::
  "(uuid_arg \<Rightarrow> item_doc option) \<Rightarrow> container_item option \<Rightarrow> grid_data" where
  "getContainerContents fromUuid containerItem =
     (case containerItem of
        None \<Rightarrow> \<lparr> g_rows = 3, g_cols = 5, g_items = [] \<rparr>
      | Some c \<Rightarrow>
          (let contents = (case ci_contents c of None \<Rightarrow> [] | Some cs \<Rightarrow> cs);
               (items, index) = fill_contents fromUuid contents [] 0;
               requiredRows = max 3 (nat \<lceil>real index / 5\<rceil>)
           in \<lparr> g_rows = requiredRows, g_cols = 5, g_items = items \<rparr>))"

text \<open>The contents whose reference resolves, in contents order.\<close>

definition resolved_contents ::
  "(uuid_arg \<Rightarrow> item_doc option) \<Rightarrow> content list \<Rightarrow> item_doc list" where
  "resolved_contents fromUuid contents = List.map_filter (\<lambda>c. fromUuid (content_ref c)) contents"

section \<open>Host calls as a trace\<close>

text \<open>
  The adapter is event-driven glue: what a handler does is the sequence of calls it
  makes on the host (console, notifications, documents, settings, registration API),
  the state it leaves behind, and whether it returns or throws. Each model returns the
  calls it made, in order, as a list of \<open>effect\<close>s.

  \<open>NotifyWarn k\<close> is \<^verbatim>\<open>ui.notifications.warn(game.i18n.localize(`${MODULE_ID}.Notifications.k`))\<close>,
  a toast shown to the user; \<open>ConsoleWarn\<close> is \<^verbatim>\<open>console.warn\<close>, which writes to the
  browser's developer console only. Console messages are recorded by their fixed text.
\<close>

type_synonym uuid = string
type_synonym doc_id = string
type_synonym actor_id = string
type_synonym addr = nat

text \<open>
  The source data of an item as far as the adapter touches it: \<^verbatim>\<open>_id\<close>, \<^verbatim>\<open>name\<close>,
  \<^verbatim>\<open>_stats\<close> and \<^verbatim>\<open>flags\<close> with their \<^verbatim>\<open>exportSource\<close> entry. For the two nested
  objects \<open>None\<close> is a missing object and \<open>Some None\<close> an object without
  \<^verbatim>\<open>exportSource\<close>; an \<^verbatim>\<open>exportSource\<close> that is present is an object, hence truthy.
\<close>

record item_data =
  data_id :: "doc_id option"
  data_name :: string
  data_stats :: "string option option"
  data_flags :: "string option option"

datatype effect =
    ConsoleLog string
  | ConsoleWarn string
  | ConsoleError string
  | NotifyWarn string
  | NotifyError string
  | FromUuid uuid
  | CreateEmbedded actor_id item_data
  | DeleteEmbedded actor_id doc_id
  | ItemUse doc_id
  | MacroExecute doc_id
  | ShowButtonChoiceDialog "string list"
  | ShortRest
  | LongRest
  | RegisterHelper string
  | Fetch string
  | RegisterPartial string
  | ImportCore string
  | ApiRegister string string
  | GetTooltipManager
  | SetTooltipId string
  | HooksCall string
  | HooksOn string
  | SettingsGet string string
  | SettingsSet string string "uuid list"
  | PacksGet string
  | GetIndex string
  | LoadState actor_id
  | SaveState actor_id
  | Delay nat
  | Refresh
  | ClearState
  | UnsetFlag actor_id string

text \<open>A JavaScript exception that leaves a handler, by what threw it.\<close>

datatype js_error = Thrown string

definition MODULE_ID :: string where
  "MODULE_ID = ''bg3-hud-dnd5e''"

section \<open>Rest dialog: \<^verbatim>\<open>showRestDialog\<close>\<close>

text \<open>
  The actor as \<^verbatim>\<open>showRestDialog\<close> sees it: whether \<^verbatim>\<open>actor.shortRest\<close> and
  \<^verbatim>\<open>actor.longRest\<close> are functions.
\<close>

record rest_actor =
  has_shortRest :: bool
  has_longRest :: bool

text \<open>
  \<open>dialog\<close> is the core's \<^verbatim>\<open>showButtonChoiceDialog\<close>: given the actions of the buttons
  offered it yields the action chosen, or \<open>None\<close> (null) when the dialog is dismissed.
\<close>

definition showRestDialog ::
  "(string list \<Rightarrow> string option) \<Rightarrow> rest_actor option \<Rightarrow> effect list" where
  "showRestDialog dialog actor =
     (case actor of
        None \<Rightarrow> []
      | Some a \<Rightarrow>
          (let buttons = [''short'', ''long''];
               choice = dialog buttons
           in ShowButtonChoiceDialog buttons #
              (if choice = Some ''short'' \<and> has_shortRest a then [ShortRest]
               else if choice = Some ''long'' \<and> has_longRest a then [LongRest]
               else [])))"

section \<open>Using an item: \<^verbatim>\<open>onCellClick\<close> and \<^verbatim>\<open>_useItem\<close>\<close>

text \<open>
  A document as the adapter sees it: its id and name, the actor it is embedded on
  (\<^verbatim>\<open>parent\<close>, \<open>None\<close> for a compendium item), whether \<^verbatim>\<open>typeof doc.use === 'function'\<close>,
  and the address of its source data in the object store.
\<close>

record document =
  d_id :: doc_id
  d_name :: string
  d_parent :: "actor_id option"
  d_has_use :: bool
  d_source :: addr

text \<open>
  The host state the adapter works on. JavaScript objects are shared by reference, so
  item data lives in a store: \<open>heap\<close> maps an address to the object there and
  \<open>next_addr\<close> is the first address not yet allocated. \<open>resolve\<close> is the host's
  \<^verbatim>\<open>fromUuid\<close>, \<open>actor_items\<close> each actor's \<^verbatim>\<open>items\<close> collection, \<open>hud_actor\<close> is
  \<^verbatim>\<open>ui.BG3HUD_APP?.currentActor\<close> and \<open>controlled_actor\<close> is
  \<^verbatim>\<open>canvas?.tokens?.controlled?.[0]?.actor\<close>.
\<close>

record world =
  heap :: "addr \<Rightarrow> item_data"
  next_addr :: addr
  resolve :: "uuid \<Rightarrow> document option"
  actor_items :: "actor_id \<Rightarrow> document list"
  hud_actor :: "actor_id option"
  controlled_actor :: "actor_id option"

text \<open>
  What the host decides during a call: the effect of \<^verbatim>\<open>item.use()\<close> and of
  \<^verbatim>\<open>macro.execute()\<close> on the world (the flag tells whether the call throws), whether
  a creation is vetoed (\<^verbatim>\<open>createEmbeddedDocuments\<close> then returns an empty array), the
  id given to a created document and whether the created document has a \<^verbatim>\<open>use\<close>
  function.
\<close>

record host =
  item_use :: "document \<Rightarrow> world \<Rightarrow> bool \<times> world"
  macro_execute :: "document \<Rightarrow> world \<Rightarrow> bool \<times> world"
  create_vetoed :: bool
  new_id :: doc_id
  created_has_use :: bool

text \<open>Allocation of a new object holding \<open>v\<close>.\<close>

definition alloc :: "item_data \<Rightarrow> world \<Rightarrow> addr \<times> world" where
  "alloc v w =
     (next_addr w, w\<lparr> heap := (heap w)(next_addr w := v), next_addr := next_addr w + 1 \<rparr>)"

text \<open>In-place mutation of the object at address \<open>a\<close>.\<close>

definition mutate :: "addr \<Rightarrow> (item_data \<Rightarrow> item_data) \<Rightarrow> world \<Rightarrow> world" where
  "mutate a f w = w\<lparr> heap := (heap w)(a := f (heap w a)) \<rparr>"

text \<open>
  Host: \<^verbatim>\<open>doc.toObject()\<close> gives a new plain object with the document's source data;
  \<^verbatim>\<open>foundry.utils.deepClone(obj)\<close> gives a new object equal to \<open>obj\<close>.
\<close>

definition toObject :: "document \<Rightarrow> world \<Rightarrow> addr \<times> world" where
  "toObject doc w = alloc (heap w (d_source doc)) w"

definition deepClone :: "addr \<Rightarrow> world \<Rightarrow> addr \<times> world" where
  "deepClone a w = alloc (heap w a) w"

text \<open>
  Host: \<^verbatim>\<open>actor.createEmbeddedDocuments('Item', [data])\<close>. Unless vetoed, the host builds
  a document from \<open>data\<close> with an id of its own choice, adds it to the actor's items and
  returns it; the model gives \<^verbatim>\<open>created?.[0] ?? null\<close>.
\<close>

definition createEmbeddedDocuments ::
  "host \<Rightarrow> actor_id \<Rightarrow> item_data \<Rightarrow> world \<Rightarrow> document option \<times> world" where
  "createEmbeddedDocuments h actor data w =
     (if create_vetoed h then (None, w)
      else
        let (a, w') = alloc (data\<lparr> data_id := Some (new_id h) \<rparr>) w;
            doc = \<lparr> d_id = new_id h, d_name = data_name data, d_parent = Some actor,
                    d_has_use = created_has_use h, d_source = a \<rparr>
        in (Some doc, w'\<lparr> actor_items := (actor_items w')(actor := actor_items w' actor @ [doc]) \<rparr>))"

text \<open>Host: \<^verbatim>\<open>actor.items.has(id)\<close> and \<^verbatim>\<open>actor.deleteEmbeddedDocuments('Item', [id])\<close>.\<close>

definition items_has :: "world \<Rightarrow> actor_id \<Rightarrow> doc_id \<Rightarrow> bool" where
  "items_has w actor i = (i \<in> set (map d_id (actor_items w actor)))"

definition deleteEmbeddedDocuments :: "actor_id \<Rightarrow> doc_id \<Rightarrow> world \<Rightarrow> world" where
  "deleteEmbeddedDocuments actor i w =
     w\<lparr> actor_items := (actor_items w)(actor := filter (\<lambda>d. d_id d \<noteq> i) (actor_items w actor)) \<rparr>"

text \<open>
  \<^verbatim>\<open>resolved.parent ?? ui.BG3HUD_APP?.currentActor ?? canvas?.tokens?.controlled?.[0]?.actor ?? null\<close>
\<close>

definition resolve_actor :: "world \<Rightarrow> document \<Rightarrow> actor_id option" where
  "resolve_actor w resolved =
     (case d_parent resolved of
        Some a \<Rightarrow> Some a
      | None \<Rightarrow> (case hud_actor w of Some a \<Rightarrow> Some a | None \<Rightarrow> controlled_actor w))"

text \<open>
  The three mutations of the cloned data, in source order:
  \<^verbatim>\<open>if (!data._stats) data._stats = {}\<close>, the move of \<^verbatim>\<open>flags.exportSource\<close> to
  \<^verbatim>\<open>_stats.exportSource\<close>, and \<^verbatim>\<open>delete data._id\<close>.
\<close>

definition ensure_stats :: "item_data \<Rightarrow> item_data" where
  "ensure_stats d = (if data_stats d = None then d\<lparr> data_stats := Some None \<rparr> else d)"

definition migrate_exportSource :: "item_data \<Rightarrow> item_data" where
  "migrate_exportSource d =
     (case data_flags d of
        Some (Some src) \<Rightarrow>
          (if data_stats d = Some None
           then d\<lparr> data_stats := Some (Some src), data_flags := Some None \<rparr>
           else d)
      | _ \<Rightarrow> d)"

definition delete_id :: "item_data \<Rightarrow> item_data" where
  "delete_id d = d\<lparr> data_id := None \<rparr>"

text \<open>
  The \<^verbatim>\<open>if (!isEmbedded) { ... }\<close> block of \<^verbatim>\<open>_useItem\<close>: it yields \<open>itemToUse\<close>,
  \<open>createdItemId\<close>, the world and the calls made.
\<close>

definition clone_to_actor ::
  "host \<Rightarrow> actor_id \<Rightarrow> document \<Rightarrow> world
     \<Rightarrow> document option \<times> doc_id option \<times> world \<times> effect list" where
  "clone_to_actor h actor resolved w =
     (let (obj, w1) = toObject resolved w;
          (data, w2) = deepClone obj w1;
          w3 = mutate data ensure_stats w2;
          w4 = mutate data migrate_exportSource w3;
          w5 = mutate data delete_id w4;
          (created, w6) = createEmbeddedDocuments h actor (heap w5 data) w5;
          itemToUse = created;
          createdItemId = map_option d_id itemToUse
      in (itemToUse, createdItemId, w6, [CreateEmbedded actor (heap w5 data)]))"

text \<open>
  \<^verbatim>\<open>if (createdItemId && actor.items.has(createdItemId)) await actor.deleteEmbeddedDocuments(...)\<close>;
  an undefined or empty id is falsy.
\<close>

definition cleanup_created :: "actor_id \<Rightarrow> doc_id option \<Rightarrow> world \<Rightarrow> world \<times> effect list" where
  "cleanup_created actor createdItemId w =
     (case createdItemId of
        None \<Rightarrow> (w, [])
      | Some i \<Rightarrow>
          (if i \<noteq> [] \<and> items_has w actor i
           then (deleteEmbeddedDocuments actor i w, [DeleteEmbedded actor i])
           else (w, [])))"

text \<open>
  The last statement of \<^verbatim>\<open>_useItem\<close>: \<^verbatim>\<open>try { await itemToUse.use({ event }) } finally { ... }\<close>
  when \<^verbatim>\<open>use\<close> is a function, and the clean-up followed by a warning otherwise. An
  exception thrown by \<^verbatim>\<open>use()\<close> leaves \<^verbatim>\<open>_useItem\<close> after the \<^verbatim>\<open>finally\<close> block ran.
\<close>

definition use_or_warn ::
  "host \<Rightarrow> actor_id \<Rightarrow> doc_id option \<Rightarrow> document \<Rightarrow> world
     \<Rightarrow> (js_error + unit) \<times> world \<times> effect list" where
  "use_or_warn h actor createdItemId item w =
     (if d_has_use item then
        (let (threw, w2) = item_use h item w;
             (w3, t3) = cleanup_created actor createdItemId w2
         in (if threw then Inl (Thrown ''use'') else Inr (), w3, ItemUse (d_id item) # t3))
      else
        (let (w3, t3) = cleanup_created actor createdItemId w
         in (Inr (), w3, t3 @ [NotifyWarn ''ItemCannotBeUsed''])))"

definition useItem ::
  "host \<Rightarrow> uuid \<Rightarrow> world \<Rightarrow> (js_error + unit) \<times> world \<times> effect list" where
  "useItem h uuid w =
     (case resolve w uuid of
        None \<Rightarrow> (Inr (), w, [FromUuid uuid, NotifyWarn ''ItemNotFound''])
      | Some resolved \<Rightarrow>
          (let isEmbedded = (d_parent resolved \<noteq> None) in
           case resolve_actor w resolved of
             None \<Rightarrow> (Inr (), w, [FromUuid uuid, NotifyWarn ''ItemCannotBeUsed''])
           | Some actor \<Rightarrow>
               (let (itemToUse, createdItemId, w1, t1) =
                      (if \<not> isEmbedded then clone_to_actor h actor resolved w
                       else (Some resolved, None, w, []))
                in case itemToUse of
                     None \<Rightarrow> (Inr (), w1, FromUuid uuid # t1 @ [NotifyWarn ''ItemNotFound''])
                   | Some item \<Rightarrow>
                       (let (r, w3, t3) = use_or_warn h actor createdItemId item w1
                        in (r, w3, FromUuid uuid # t1 @ [ConsoleLog ''Using item''] @ t3)))))"

definition executeMacro ::
  "host \<Rightarrow> uuid \<Rightarrow> world \<Rightarrow> (js_error + unit) \<times> world \<times> effect list" where
  "executeMacro h uuid w =
     (case resolve w uuid of
        None \<Rightarrow> (Inr (), w, [FromUuid uuid, NotifyWarn ''MacroNotFound''])
      | Some macro \<Rightarrow>
          (let (threw, w1) = macro_execute h macro w
           in (if threw then Inl (Thrown ''execute'') else Inr (),
               w1, [FromUuid uuid, ConsoleLog ''Executing macro'', MacroExecute (d_id macro)])))"

text \<open>The data of a hotbar cell: \<^verbatim>\<open>cell.data\<close> with its \<^verbatim>\<open>type\<close> and \<^verbatim>\<open>uuid\<close>.\<close>

record cell_data =
  cd_type :: string
  cd_uuid :: uuid

definition onCellClick ::
  "host \<Rightarrow> cell_data option \<Rightarrow> world \<Rightarrow> (js_error + unit) \<times> world \<times> effect list" where
  "onCellClick h cell w =
     (case cell of
        None \<Rightarrow> (Inr (), w, [])
      | Some data \<Rightarrow>
          (let (r, w', t) =
                 (if cd_type data = ''Item'' then useItem h (cd_uuid data) w
                  else if cd_type data = ''Macro'' then executeMacro h (cd_uuid data) w
                  else (Inr (), w, [ConsoleWarn ''Unknown cell data type'']))
           in (r, w', ConsoleLog ''Cell clicked'' # t)))"

text \<open>How often \<^verbatim>\<open>use()\<close> was invoked, and on which documents.\<close>

fun is_use :: "effect \<Rightarrow> bool" where
  "is_use (ItemUse i) = True"
| "is_use e = False"

definition use_calls :: "effect list \<Rightarrow> effect list" where
  "use_calls t = filter is_use t"

fun is_notification :: "effect \<Rightarrow> bool" where
  "is_notification (NotifyWarn k) = True"
| "is_notification (NotifyError k) = True"
| "is_notification e = False"

section \<open>The CPR Generic Actions button: \<^verbatim>\<open>_onClick\<close>\<close>

definition CPR_GENERIC_ACTIONS_legacy :: uuid where
  "CPR_GENERIC_ACTIONS_legacy = ''Compendium.chris-premades.CPRMiscellaneous.Item.V0rdpb8WPmdYhAjc''"

definition CPR_GENERIC_ACTIONS_modern :: uuid where
  "CPR_GENERIC_ACTIONS_modern = ''Compendium.chris-premades.CPRMiscellaneous.Item.Iz2XtxLReLnXTDiI''"

text \<open>\<^verbatim>\<open>CPR_GENERIC_ACTIONS_UUIDS[rulesVersion] || CPR_GENERIC_ACTIONS_UUIDS.modern\<close>\<close>

definition getCPRGenericActionsUUID :: "string \<Rightarrow> uuid" where
  "getCPRGenericActionsUUID rulesVersion =
     (if rulesVersion = ''legacy'' then CPR_GENERIC_ACTIONS_legacy
      else if rulesVersion = ''modern'' then CPR_GENERIC_ACTIONS_modern
      else CPR_GENERIC_ACTIONS_modern)"

text \<open>\<^verbatim>\<open>rulesVersion === 'modern' ? 'Generic Actions (2024)' : 'Generic Actions (2014)'\<close>\<close>

definition generic_actions_name :: "string \<Rightarrow> string" where
  "generic_actions_name rulesVersion =
     (if rulesVersion = ''modern'' then ''Generic Actions (2024)'' else ''Generic Actions (2014)'')"

text \<open>
  The creation of the item from the compendium: the data is deep-cloned, its
  \<^verbatim>\<open>_id\<close> deleted and the clone created on the actor with
  \<^verbatim>\<open>{ noBG3AutoAdd: true }\<close>. It yields \<^verbatim>\<open>createdItems?.[0]\<close>.
\<close>

definition clone_permanent ::
  "host \<Rightarrow> actor_id \<Rightarrow> document \<Rightarrow> world \<Rightarrow> document option \<times> world \<times> effect list" where
  "clone_permanent h actor compendiumItem w =
     (let (obj, w1) = toObject compendiumItem w;
          (data, w2) = deepClone obj w1;
          w3 = mutate data delete_id w2;
          (createdItems, w4) = createEmbeddedDocuments h actor (heap w3 data) w3
      in (createdItems, w4, [CreateEmbedded actor (heap w3 data)]))"

text \<open>
  The last statement of the \<^verbatim>\<open>try\<close> block: the embedded item is used and never
  deleted; without a \<^verbatim>\<open>use\<close> function a warning is shown.
\<close>

definition use_actor_item ::
  "host \<Rightarrow> document \<Rightarrow> world \<Rightarrow> (js_error + unit) \<times> world \<times> effect list" where
  "use_actor_item h actorItem w =
     (if d_has_use actorItem then
        (let (threw, w') = item_use h actorItem w
         in (if threw then Inl (Thrown ''use'') else Inr (), w', [ItemUse (d_id actorItem)]))
      else (Inr (), w, [NotifyWarn ''ItemCannotBeUsed'']))"

text \<open>
  The body of the \<^verbatim>\<open>try\<close> block. \<open>this.actor\<close> may be null, in which case reading
  \<^verbatim>\<open>this.actor.items\<close> throws a TypeError; \<open>rulesVersion\<close> is the value of the dnd5e
  setting of that name, read once here and once more by \<^verbatim>\<open>getCPRGenericActionsUUID\<close>.
\<close>

definition onClick_body ::
  "host \<Rightarrow> string \<Rightarrow> actor_id option \<Rightarrow> world \<Rightarrow> (js_error + unit) \<times> world \<times> effect list" where
  "onClick_body h rulesVersion this_actor w =
     (let t0 = [SettingsGet ''dnd5e'' ''rulesVersion''];
          itemName = generic_actions_name rulesVersion
      in case this_actor of
           None \<Rightarrow> (Inl (Thrown ''TypeError''), w, t0)
         | Some actor \<Rightarrow>
             (case find (\<lambda>i. d_name i = itemName) (actor_items w actor) of
                Some actorItem \<Rightarrow>
                  (let (r, w', t) = use_actor_item h actorItem w in (r, w', t0 @ t))
              | None \<Rightarrow>
                  (let uuid = getCPRGenericActionsUUID rulesVersion;
                       t1 = t0 @ [SettingsGet ''dnd5e'' ''rulesVersion'', FromUuid uuid]
                   in case resolve w uuid of
                        None \<Rightarrow> (Inr (), w, t1 @ [NotifyWarn ''CPRGenericActionsNotFound''])
                      | Some compendiumItem \<Rightarrow>
                          (let (created, w1, t2) = clone_permanent h actor compendiumItem w
                           in case created of
                                None \<Rightarrow> (Inr (), w1, t1 @ t2 @ [NotifyWarn ''CPRGenericActionsNotFound''])
                              | Some actorItem \<Rightarrow>
                                  (let (r, w', t) = use_actor_item h actorItem w1
                                   in (r, w',
                                       t1 @ t2 @
                                       [ConsoleLog ''Created CPR Generic Actions item on actor''] @ t))))))"

text \<open>\<^verbatim>\<open>_onClick\<close>: the \<^verbatim>\<open>catch\<close> reports any exception and the handler returns.\<close>

definition onClick ::
  "host \<Rightarrow> string \<Rightarrow> actor_id option \<Rightarrow> world \<Rightarrow> (js_error + unit) \<times> world \<times> effect list" where
  "onClick h rulesVersion this_actor w =
     (case onClick_body h rulesVersion this_actor w of
        (Inl e, w', t) \<Rightarrow>
          (Inr (), w',
           t @ [ConsoleError ''Error using CPR Generic Actions'', NotifyError ''CPRGenericActionsError''])
      | (Inr u, w', t) \<Rightarrow> (Inr (), w', t))"

section \<open>CPR actions: defaults and quick-access population\<close>

record cpr_config =
  packName :: string
  packId :: string
  defaultActions :: "string list"
  isModern :: bool
  settingsKey :: string

definition getCPRConfig :: "string \<Rightarrow> cpr_config" where
  "getCPRConfig rulesVersion =
     (if rulesVersion = ''modern''
      then \<lparr> packName = ''CPRActions2024'',
             packId = ''chris-premades.CPRActions2024'',
             defaultActions = [''Dash'', ''Disengage'', ''Dodge'', ''Help'', ''Hide'', ''Ready''],
             isModern = True,
             settingsKey = ''selectedCPRActionsModern'' \<rparr>
      else \<lparr> packName = ''CPRActions'',
             packId = ''chris-premades.CPRActions'',
             defaultActions = [''Dash'', ''Disengage'', ''Dodge'', ''Grapple'', ''Help'', ''Hide''],
             isModern = False,
             settingsKey = ''selectedCPRActionsLegacy'' \<rparr>)"

text \<open>
  The persisted HUD state as far as population reads and writes it. \<open>None\<close> for
  \<open>hs_quickAccess\<close> is a missing \<^verbatim>\<open>quickAccess\<close>, for \<open>qa_grids\<close> a \<^verbatim>\<open>grids\<close> that is
  not an array, for \<open>hg_items\<close> a missing \<^verbatim>\<open>items\<close>; \<open>hs_other\<close> stands for the rest
  of the state.
\<close>

record hud_cell =
  hc_uuid :: uuid
  hc_type :: string

record hud_grid =
  hg_rows :: nat
  hg_cols :: nat
  hg_items :: "(string \<times> hud_cell) list option"

record quick_access =
  qa_grids :: "hud_grid list option"

record hud_state =
  hs_quickAccess :: "quick_access option"
  hs_other :: string

text \<open>
  The host as the CPR code reads it: two dnd5e/module settings, whether chris-premades
  is active, the stored selection per settings key (\<open>None\<close> when unset), the compendium
  packs by id with their index entries (id and name), whether \<^verbatim>\<open>pack.getIndex()\<close> and the
  dynamic import of the core's PersistenceManager reject, the name of the item a UUID
  resolves to, the persisted HUD state per actor and the actor the HUD shows.
\<close>

record cpr_world =
  cw_rulesVersion :: string
  cw_cpr_active :: bool
  cw_enableAutoPopulate :: bool
  cw_selected :: "string \<Rightarrow> uuid list option"
  cw_packs :: "string \<Rightarrow> (doc_id \<times> string) list option"
  cw_getIndex_fails :: bool
  cw_import_fails :: bool
  cw_item_name :: "uuid \<Rightarrow> string option"
  cw_persisted :: "actor_id \<Rightarrow> hud_state"
  cw_hud_actor :: "actor_id option"

text \<open>\<^verbatim>\<open>`Compendium.${cprConfig.packId}.Item.${id}`\<close>\<close>

definition compendium_uuid :: "string \<Rightarrow> doc_id \<Rightarrow> uuid" where
  "compendium_uuid pack i = ''Compendium.'' @ pack @ ''.Item.'' @ i"

text \<open>The loop over \<^verbatim>\<open>cprConfig.defaultActions\<close>: the first index entry of each name.\<close>

definition find_default_uuids :: "cpr_config \<Rightarrow> (doc_id \<times> string) list \<Rightarrow> uuid list" where
  "find_default_uuids cfg index =
     List.map_filter
       (\<lambda>actionName.
          map_option (\<lambda>entry. compendium_uuid (packId cfg) (fst entry))
            (find (\<lambda>entry. snd entry = actionName) index))
       (defaultActions cfg)"

definition initializeDefaultActions :: "cpr_world \<Rightarrow> cpr_world \<times> effect list" where
  "initializeDefaultActions w =
     (if \<not> cw_cpr_active w then (w, [])
      else
        let cprConfig = getCPRConfig (cw_rulesVersion w);
            t0 = [SettingsGet ''dnd5e'' ''rulesVersion'', SettingsGet MODULE_ID (settingsKey cprConfig)];
            currentSelection = cw_selected w (settingsKey cprConfig)
        in if currentSelection \<noteq> None \<and> currentSelection \<noteq> Some [] then (w, t0)
        else
          let t1 = t0 @ [PacksGet (packId cprConfig)]
          in case cw_packs w (packId cprConfig) of
               None \<Rightarrow> (w, t1 @ [ConsoleWarn ''CPR pack not found''])
             | Some index \<Rightarrow>
                 (let t2 = t1 @ [GetIndex (packId cprConfig)] in
                  if cw_getIndex_fails w
                  then (w, t2 @ [ConsoleWarn ''Failed to initialize default CPR actions''])
                  else
                    let defaultUuids = find_default_uuids cprConfig index
                    in if defaultUuids \<noteq> []
                       then (w\<lparr> cw_selected := (cw_selected w)(settingsKey cprConfig := Some defaultUuids) \<rparr>,
                             t2 @ [SettingsSet MODULE_ID (settingsKey cprConfig) defaultUuids,
                                   ConsoleLog ''Initialized default CPR actions''])
                       else (w, t2)))"

text \<open>\<^verbatim>\<open>state.quickAccess?.grids?.[0]?.items || {}\<close>\<close>

definition existingItems :: "hud_state \<Rightarrow> (string \<times> hud_cell) list" where
  "existingItems state =
     (case hs_quickAccess state of
        None \<Rightarrow> []
      | Some qa \<Rightarrow>
          (case qa_grids qa of
             None \<Rightarrow> []
           | Some [] \<Rightarrow> []
           | Some (g # gs) \<Rightarrow> (case hg_items g of None \<Rightarrow> [] | Some its \<Rightarrow> its)))"

text \<open>
  \<^verbatim>\<open>`${i % grid.cols}-${Math.floor(i / grid.cols)}`\<close>. For \<open>cols = 0\<close> JavaScript
  computes \<open>NaN\<close> and \<open>Infinity\<close>, not the \<open>i mod 0 = i\<close> and \<open>i div 0 = 0\<close> of HOL.
\<close>

definition grid_slotKey :: "nat \<Rightarrow> nat \<Rightarrow> string" where
  "grid_slotKey cols i =
     (if cols = 0 then (if i = 0 then ''NaN-NaN'' else ''NaN-Infinity'')
      else slotKey (i mod cols) (i div cols))"

text \<open>
  The loop \<^verbatim>\<open>for (let i = 0; i < maxActions; i++)\<close> from index \<open>i\<close> on, over the UUIDs
  still to be placed.
\<close>

fun populate_slots ::
  "nat \<Rightarrow> uuid list \<Rightarrow> nat \<Rightarrow> (string \<times> hud_cell) list \<Rightarrow> (string \<times> hud_cell) list" where
  "populate_slots cols [] i items = items"
| "populate_slots cols (u # us) i items =
     populate_slots cols us (i + 1)
       (AList.update (grid_slotKey cols i) \<lparr> hc_uuid = u, hc_type = ''Item'' \<rparr> items)"

text \<open>
  Resolution of the UUIDs to \<^verbatim>\<open>{ uuid, name }\<close> pairs, and the sort by name.
  \<^verbatim>\<open>localeCompare\<close> orders strings by the locale's collation: \<open>collate\<close> maps a name to
  its collation key in some linear order, and \<^verbatim>\<open>Array.prototype.sort\<close> is stable.
\<close>

definition resolve_actions :: "cpr_world \<Rightarrow> uuid list \<Rightarrow> (uuid \<times> string) list" where
  "resolve_actions w actionUuids =
     List.map_filter (\<lambda>u. map_option (\<lambda>n. (u, n)) (cw_item_name w u)) actionUuids"

definition sorted_actions ::
  "(string \<Rightarrow> 'k::linorder) \<Rightarrow> cpr_world \<Rightarrow> uuid list \<Rightarrow> (uuid \<times> string) list" where
  "sorted_actions collate w actionUuids =
     sort_key (\<lambda>a. collate (snd a)) (resolve_actions w actionUuids)"

definition sorted_uuids :: "(string \<Rightarrow> 'k::linorder) \<Rightarrow> cpr_world \<Rightarrow> uuid list \<Rightarrow> uuid list" where
  "sorted_uuids collate w actionUuids = map fst (sorted_actions collate w actionUuids)"

text \<open>
  \<^verbatim>\<open>if (!state.quickAccess || !Array.isArray(state.quickAccess.grids))
      state.quickAccess = { grids: [{ rows: 2, cols: 3, items: {} }] }\<close>
\<close>

definition ensure_quickAccess :: "hud_state \<Rightarrow> hud_state" where
  "ensure_quickAccess state =
     (let fresh = Some \<lparr> qa_grids = Some [\<lparr> hg_rows = 2, hg_cols = 3, hg_items = Some [] \<rparr>] \<rparr>
      in case hs_quickAccess state of
           None \<Rightarrow> state\<lparr> hs_quickAccess := fresh \<rparr>
         | Some qa \<Rightarrow> (if qa_grids qa = None then state\<lparr> hs_quickAccess := fresh \<rparr> else state))"

text \<open>The grids of a state made well-shaped by \<open>ensure_quickAccess\<close>.\<close>

definition grids_of :: "hud_state \<Rightarrow> hud_grid list" where
  "grids_of state =
     (case hs_quickAccess state of
        None \<Rightarrow> []
      | Some qa \<Rightarrow> (case qa_grids qa of None \<Rightarrow> [] | Some gs \<Rightarrow> gs))"

text \<open>\<^verbatim>\<open>if (!grid.items) grid.items = {}\<close>, then the population loop.\<close>

definition populate_grid :: "uuid list \<Rightarrow> hud_grid \<Rightarrow> hud_grid" where
  "populate_grid sortedUuids grid =
     (let items = (case hg_items grid of None \<Rightarrow> [] | Some its \<Rightarrow> its);
          maxActions = min (length sortedUuids) 6
      in grid\<lparr> hg_items := Some (populate_slots (hg_cols grid) (take maxActions sortedUuids) 0 items) \<rparr>)"

definition populateQuickAccess ::
  "(string \<Rightarrow> 'k::linorder) \<Rightarrow> actor_id option \<Rightarrow> uuid list option \<Rightarrow> cpr_world
     \<Rightarrow> cpr_world \<times> effect list" where
  "populateQuickAccess collate actor actionUuids w =
     (case (actor, actionUuids) of
        (Some a, Some (u # us)) \<Rightarrow>
          (let uuids = u # us;
               t0 = [ImportCore ''PersistenceManager''];
               failed = [ConsoleError ''Error populating quickAccess with CPR actions'']
           in if cw_import_fails w then (w, t0 @ failed)
              else
                let state = cw_persisted w a;
                    t1 = t0 @ [LoadState a]
                in if existingItems state \<noteq> []
                   then (w, t1 @ [ConsoleLog ''Skipping - quickAccess already has items''])
                   else
                     let t2 = t1 @ [ConsoleLog ''Populating with CPR actions''] @ map FromUuid uuids;
                         sortedUuids = sorted_uuids collate w uuids;
                         state1 = ensure_quickAccess state
                     in case grids_of state1 of
                          [] \<Rightarrow> (w, t2 @ failed)
                        | grid # others \<Rightarrow>
                            (let state2 = state1\<lparr> hs_quickAccess :=
                                            Some \<lparr> qa_grids = Some (populate_grid sortedUuids grid # others) \<rparr> \<rparr>
                             in (w\<lparr> cw_persisted := (cw_persisted w)(a := state2) \<rparr>,
                                 t2 @ [SaveState a, ConsoleLog ''Populated quickAccess'', Delay 50] @
                                 (if cw_hud_actor w = Some a then [Refresh] else []))))
      | _ \<Rightarrow> (w, [ConsoleLog ''Skipping - no actor or action UUIDs'']))"

text \<open>The fallback of \<^verbatim>\<open>onTokenCreation\<close>: the first six index entries by name.\<close>

definition fallback_uuids ::
  "(string \<Rightarrow> 'k::linorder) \<Rightarrow> cpr_config \<Rightarrow> (doc_id \<times> string) list \<Rightarrow> uuid list" where
  "fallback_uuids collate cfg index =
     map (\<lambda>entry. compendium_uuid (packId cfg) (fst entry))
       (take 6 (sort_key (\<lambda>entry. collate (snd entry)) index))"

definition onTokenCreation ::
  "(string \<Rightarrow> 'k::linorder) \<Rightarrow> actor_id option \<Rightarrow> cpr_world \<Rightarrow> cpr_world \<times> effect list" where
  "onTokenCreation collate actor w =
     (case actor of
        None \<Rightarrow> (w, [])
      | Some a \<Rightarrow>
          (let t0 = [SettingsGet MODULE_ID ''enableCPRActionsAutoPopulate''] in
           if \<not> cw_enableAutoPopulate w then (w, t0)
           else if \<not> cw_cpr_active w then (w, t0)
           else
             let cprConfig = getCPRConfig (cw_rulesVersion w);
                 t1 = t0 @ [Delay 200, SettingsGet ''dnd5e'' ''rulesVersion'',
                            SettingsGet MODULE_ID (settingsKey cprConfig)];
                 selectedActions = (case cw_selected w (settingsKey cprConfig) of
                                      None \<Rightarrow> [] | Some xs \<Rightarrow> xs)
             in if selectedActions = [] then
                  (let t2 = t1 @ [PacksGet (packId cprConfig)]
                   in case cw_packs w (packId cprConfig) of
                        None \<Rightarrow> (w, t2 @ [ConsoleWarn ''pack not found''])
                      | Some index \<Rightarrow>
                          (if cw_getIndex_fails w
                           then (w, t2 @ [GetIndex (packId cprConfig),
                                          ConsoleError ''Error populating CPR actions on token creation''])
                           else
                             let (w', t) = populateQuickAccess collate (Some a)
                                             (Some (fallback_uuids collate cprConfig index)) w
                             in (w', t2 @ [GetIndex (packId cprConfig)] @ t)))
                else
                  (let (w', t) = populateQuickAccess collate (Some a) (Some (take 6 selectedActions)) w
                   in (w', t1 @ t))))"

text \<open>
  Order in a trace: \<open>first_before P Q t\<close> holds when no call satisfying \<open>Q\<close> occurs in
  \<open>t\<close> before the first call satisfying \<open>P\<close>, so every \<open>Q\<close> call is preceded by a
  \<open>P\<close> call.
\<close>

fun first_before :: "(effect \<Rightarrow> bool) \<Rightarrow> (effect \<Rightarrow> bool) \<Rightarrow> effect list \<Rightarrow> bool" where
  "first_before P Q [] = True"
| "first_before P Q (e # es) = (if P e then True else if Q e then False else first_before P Q es)"

fun is_delay :: "effect \<Rightarrow> bool" where
  "is_delay (Delay n) = True"
| "is_delay e = False"

text \<open>
  Reading the CPR configuration and populating: the settings reads of \<^verbatim>\<open>getCPRConfig\<close>
  and of the selection, the pack lookup, and every call \<^verbatim>\<open>populateQuickAccess\<close> makes.
\<close>

fun is_config_or_populate :: "effect \<Rightarrow> bool" where
  "is_config_or_populate (SettingsGet m k) = (m = ''dnd5e'' \<or> k \<noteq> ''enableCPRActionsAutoPopulate'')"
| "is_config_or_populate (PacksGet p) = True"
| "is_config_or_populate (GetIndex p) = True"
| "is_config_or_populate (ImportCore m) = True"
| "is_config_or_populate (LoadState a) = True"
| "is_config_or_populate (SaveState a) = True"
| "is_config_or_populate (FromUuid u) = True"
| "is_config_or_populate Refresh = True"
| "is_config_or_populate e = False"

fun is_save :: "effect \<Rightarrow> bool" where
  "is_save (SaveState a) = True"
| "is_save e = False"

section \<open>Advantage and disadvantage: \<^verbatim>\<open>registerAdvantageHooks\<close>\<close>

definition ADVANTAGE_ROLL_EVENTS :: "string list" where
  "ADVANTAGE_ROLL_EVENTS =
     [ ''dnd5e.preRollAttackV2'',
       ''dnd5e.preRollSavingThrowV2'',
       ''dnd5e.preRollSkillV2'',
       ''dnd5e.preRollAbilityCheckV2'',
       ''dnd5e.preRollConcentrationV2'',
       ''dnd5e.preRollDeathSaveV2'',
       ''dnd5e.preRollToolV2'' ]"









text \<open>
  The hook registry (\<^verbatim>\<open>Hooks.on\<close>) with the module-level flag
  \<^verbatim>\<open>advantageHooksRegistered\<close>; a handler is recorded by its name.
\<close>

record hooks_state =
  advantageHooksRegistered :: bool
  hooks :: "(string \<times> string) list"

definition registerAdvantageHooks :: "hooks_state \<Rightarrow> hooks_state \<times> effect list" where
  "registerAdvantageHooks hs =
     (if advantageHooksRegistered hs then (hs, [])
      else (hs\<lparr> hooks := hooks hs @ map (\<lambda>event. (event, ''handleRollAdvantage'')) ADVANTAGE_ROLL_EVENTS,
                advantageHooksRegistered := True \<rparr>,
            map HooksOn ADVANTAGE_ROLL_EVENTS))"


section \<open>Registration: the \<^verbatim>\<open>bg3HudReady\<close> handler\<close>

text \<open>
  What the handler reads from the host: the active system id, whether fetching the
  tooltip partial and the dynamic imports of the core's container classes succeed,
  and the tooltip manager (\<open>None\<close> when unavailable; \<open>Some b\<close> with \<open>b\<close> telling
  whether it has a \<^verbatim>\<open>tooltipElement\<close>).
\<close>

record ready_env =
  system_id :: string
  fetch_ok :: bool
  core_import_ok :: bool
  tooltip_manager :: "bool option"

text \<open>The calls on \<^verbatim>\<open>BG3HUD_API\<close> that register something.\<close>

fun is_registration :: "effect \<Rightarrow> bool" where
  "is_registration (ApiRegister f x) = True"
| "is_registration e = False"

definition register_containers :: "effect list" where
  "register_containers =
     [ ApiRegister ''registerPortraitContainer'' ''DnD5ePortraitContainer'',
       ApiRegister ''registerPassivesContainer'' ''DnD5ePassivesContainer'',
       ApiRegister ''registerWeaponSetContainer'' ''DnD5eWeaponSetContainer'',
       ApiRegister ''registerActionButtonsContainer'' ''DnD5eActionButtonsContainer'',
       ApiRegister ''registerFilterContainer'' ''DnD5eFilterContainer'',
       ApiRegister ''registerInfoContainer'' ''DnD5eInfoContainer'',
       ApiRegister ''registerContainer'' ''situationalBonuses'',
       ApiRegister ''registerContainer'' ''cprGenericActions'' ]"

definition register_tooltip :: "bool option \<Rightarrow> effect list" where
  "register_tooltip tooltipManager =
     (case tooltipManager of
        None \<Rightarrow> [ConsoleError ''TooltipManager not available, cannot register tooltip renderer'']
      | Some hasElement \<Rightarrow>
          [ApiRegister ''registerTooltipRenderer'' ''dnd5e'',
           ConsoleLog ''Tooltip renderer registered''] @
          (if hasElement
           then [SetTooltipId ''tooltip'', ConsoleLog ''Tooltip ID set to #tooltip for dnd5e styling'']
           else []))"

text \<open>
  The handler. A rejected \<^verbatim>\<open>fetch\<close> or dynamic import leaves it as an exception. After
  the registrations it runs \<^verbatim>\<open>initializeDefaultCPRActions\<close> (the module-level copy of
  \<open>initializeDefaultActions\<close>, with the same body), signals
  \<^verbatim>\<open>bg3HudRegistrationComplete\<close> and registers the advantage hooks.
\<close>

definition bg3HudReady ::
  "ready_env \<Rightarrow> cpr_world \<Rightarrow> hooks_state
     \<Rightarrow> (js_error + unit) \<times> cpr_world \<times> hooks_state \<times> effect list" where
  "bg3HudReady env w hs =
     (let t0 = [ConsoleLog ''Received bg3HudReady hook''] in
      if system_id env \<noteq> ''dnd5e''
      then (Inr (), w, hs, t0 @ [ConsoleWarn ''Not running D&D 5e system, skipping registration''])
      else
        let t1 = t0 @ [RegisterHelper ''contains'',
                       Fetch ''modules/bg3-hud-dnd5e/templates/tooltips/weapon-block.hbs'']
        in if \<not> fetch_ok env then (Inl (Thrown ''fetch''), w, hs, t1)
        else
          let t2 = t1 @ [RegisterPartial ''bg3-hud-dnd5e.weapon-block'',
                         ConsoleLog ''Registering D&D 5e components'',
                         ImportCore ''PortraitContainer'']
          in if \<not> core_import_ok env then (Inl (Thrown ''import''), w, hs, t2)
          else
            let t3 = t2 @ [ImportCore ''PassivesContainer'', ImportCore ''WeaponSetContainer''] @
                     register_containers @
                     [ApiRegister ''registerAdapter'' ''DnD5eAdapter'',
                      ApiRegister ''registerMenuBuilder'' ''dnd5e'',
                      ConsoleLog ''Menu builder registered'',
                      GetTooltipManager] @
                     register_tooltip (tooltip_manager env) @
                     [ConsoleLog ''Registration complete''];
                (w', t4) = initializeDefaultActions w;
                (hs', t5) = registerAdvantageHooks hs
            in (Inr (), w', hs', t3 @ t4 @ [HooksCall ''bg3HudRegistrationComplete''] @ t5))"

text \<open>The trace component of a handler's result.\<close>

definition trace_of :: "'r \<times> 'w \<times> 'h \<times> effect list \<Rightarrow> effect list" where
  "trace_of r = snd (snd (snd r))"

section \<open>Sample hosts and inputs\<close>

text \<open>Concrete hosts and inputs at which the theorems below are instantiated.\<close>

definition choose_short :: "string list \<Rightarrow> string option" where
  "choose_short buttons = (if ''short'' \<in> set buttons then Some ''short'' else None)"

definition choose_long :: "string list \<Rightarrow> string option" where
  "choose_long buttons = (if ''long'' \<in> set buttons then Some ''long'' else None)"

definition dismiss :: "string list \<Rightarrow> string option" where
  "dismiss buttons = None"

definition actor_without_shortRest :: rest_actor where
  "actor_without_shortRest = \<lparr> has_shortRest = False, has_longRest = True \<rparr>"

definition character_actor :: rest_actor where
  "character_actor = \<lparr> has_shortRest = True, has_longRest = True \<rparr>"

definition pf2e_env :: ready_env where
  "pf2e_env = \<lparr> system_id = ''pf2e'', fetch_ok = True, core_import_ok = True,
                 tooltip_manager = Some True \<rparr>"

definition dnd5e_env :: ready_env where
  "dnd5e_env = \<lparr> system_id = ''dnd5e'', fetch_ok = True, core_import_ok = True,
                  tooltip_manager = Some True \<rparr>"

definition no_cpr_world :: cpr_world where
  "no_cpr_world =
     \<lparr> cw_rulesVersion = ''modern'', cw_cpr_active = False, cw_enableAutoPopulate = False,
       cw_selected = (\<lambda>k. None), cw_packs = (\<lambda>p. None), cw_getIndex_fails = False,
       cw_import_fails = False, cw_item_name = (\<lambda>u. None),
       cw_persisted = (\<lambda>a. \<lparr> hs_quickAccess = None, hs_other = [] \<rparr>),
       cw_hud_actor = None \<rparr>"

definition no_hooks :: hooks_state where
  "no_hooks = \<lparr> advantageHooksRegistered = False, hooks = [] \<rparr>"





text \<open>The three components of a handler's result: outcome, final host state, calls made.\<close>

definition outcome :: "'r \<times> 'w \<times> effect list \<Rightarrow> 'r" where
  "outcome r = fst r"

definition final_world :: "'r \<times> 'w \<times> effect list \<Rightarrow> 'w" where
  "final_world r = fst (snd r)"

definition calls :: "'r \<times> 'w \<times> effect list \<Rightarrow> effect list" where
  "calls r = snd (snd r)"

text \<open>
  A world with one compendium spell (not embedded, its source data at address 0) and one
  sword embedded on the actor \<open>hero\<close> (source data at address 1). \<open>hud_world\<close> has the
  HUD showing \<open>hero\<close>; in \<open>bare_world\<close> no actor is shown or controlled.
\<close>

definition fireball_uuid :: uuid where
  "fireball_uuid = ''Compendium.spells.Item.fireball''"

definition sword_uuid :: uuid where
  "sword_uuid = ''Actor.hero.Item.sword''"

definition fireball :: document where
  "fireball = \<lparr> d_id = ''fireball'', d_name = ''Fireball'', d_parent = None,
                 d_has_use = True, d_source = 0 \<rparr>"

definition sword :: document where
  "sword = \<lparr> d_id = ''sword'', d_name = ''Sword'', d_parent = Some ''hero'',
              d_has_use = True, d_source = 1 \<rparr>"

definition fireball_data :: item_data where
  "fireball_data = \<lparr> data_id = Some ''fireball'', data_name = ''Fireball'',
                      data_stats = None, data_flags = Some (Some ''world'') \<rparr>"

definition sword_data :: item_data where
  "sword_data = \<lparr> data_id = Some ''sword'', data_name = ''Sword'',
                   data_stats = Some None, data_flags = None \<rparr>"

definition bare_world :: world where
  "bare_world =
     \<lparr> heap = (\<lambda>a. if a = 0 then fireball_data else sword_data),
       next_addr = 2,
       resolve = (\<lambda>u. if u = fireball_uuid then Some fireball
                       else if u = sword_uuid then Some sword else None),
       actor_items = (\<lambda>a. if a = ''hero'' then [sword] else []),
       hud_actor = None,
       controlled_actor = None \<rparr>"

definition hud_world :: world where
  "hud_world = bare_world\<lparr> hud_actor := Some ''hero'' \<rparr>"

text \<open>
  Two hosts: with \<open>quiet_host\<close> \<^verbatim>\<open>use()\<close> and \<^verbatim>\<open>execute()\<close> return and change nothing,
  with \<open>throwing_host\<close> \<^verbatim>\<open>use()\<close> throws. Both create documents with id \<open>tmp\<close>.
\<close>

definition quiet_host :: host where
  "quiet_host =
     \<lparr> item_use = (\<lambda>d w. (False, w)), macro_execute = (\<lambda>d w. (False, w)),
       create_vetoed = False, new_id = ''tmp'', created_has_use = True \<rparr>"

definition throwing_host :: host where
  "throwing_host = quiet_host\<lparr> item_use := (\<lambda>d w. (True, w)) \<rparr>"

definition fireball_cell :: cell_data where
  "fireball_cell = \<lparr> cd_type = ''Item'', cd_uuid = fireball_uuid \<rparr>"

definition sword_cell :: cell_data where
  "sword_cell = \<lparr> cd_type = ''Item'', cd_uuid = sword_uuid \<rparr>"

text \<open>
  A world in which the 2024 Generic Actions item of chris-premades resolves (its source
  data at address 0) and the actor \<open>hero\<close> carries only the sword.
\<close>

definition generic_actions :: document where
  "generic_actions = \<lparr> d_id = ''Iz2XtxLReLnXTDiI'', d_name = ''Generic Actions (2024)'',
                        d_parent = None, d_has_use = True, d_source = 0 \<rparr>"

definition generic_actions_data :: item_data where
  "generic_actions_data = \<lparr> data_id = Some ''Iz2XtxLReLnXTDiI'',
                             data_name = ''Generic Actions (2024)'',
                             data_stats = Some None, data_flags = None \<rparr>"

definition click_world :: world where
  "click_world =
     \<lparr> heap = (\<lambda>a. generic_actions_data),
       next_addr = 1,
       resolve = (\<lambda>u. if u = CPR_GENERIC_ACTIONS_modern then Some generic_actions else None),
       actor_items = (\<lambda>a. if a = ''hero'' then [sword] else []),
       hud_actor = Some ''hero'',
       controlled_actor = None \<rparr>"

text \<open>A host state with chris-premades active, nothing selected and no CPR pack installed.\<close>

definition cpr_without_pack :: cpr_world where
  "cpr_without_pack = no_cpr_world\<lparr> cw_cpr_active := True \<rparr>"

text \<open>
  A host state for population: chris-premades is active and auto-population enabled,
  three actions are selected, of which the second does not resolve; the actor \<open>hero\<close>
  is shown by the HUD and has no quick-access state yet. The sample collation orders
  names by their length.
\<close>

definition dash_uuid :: uuid where
  "dash_uuid = ''Compendium.chris-premades.CPRActions2024.Item.dash''"

definition gone_uuid :: uuid where
  "gone_uuid = ''Compendium.chris-premades.CPRActions2024.Item.gone''"

definition help_uuid :: uuid where
  "help_uuid = ''Compendium.chris-premades.CPRActions2024.Item.help''"

definition populate_world :: cpr_world where
  "populate_world =
     \<lparr> cw_rulesVersion = ''modern'', cw_cpr_active = True, cw_enableAutoPopulate = True,
       cw_selected = (\<lambda>k. if k = ''selectedCPRActionsModern''
                            then Some [help_uuid, gone_uuid, dash_uuid] else None),
       cw_packs = (\<lambda>p. None), cw_getIndex_fails = False, cw_import_fails = False,
       cw_item_name = (\<lambda>u. if u = dash_uuid then Some ''Dash''
                              else if u = help_uuid then Some ''Helping'' else None),
       cw_persisted = (\<lambda>a. \<lparr> hs_quickAccess = None, hs_other = [] \<rparr>),
       cw_hud_actor = Some ''hero'' \<rparr>"

definition by_length :: "string \<Rightarrow> nat" where
  "by_length name = length name"

text \<open>The same host with one item already in grid 0 of the hero's quick access.\<close>

definition occupied_state :: hud_state where
  "occupied_state =
     \<lparr> hs_quickAccess =
         Some \<lparr> qa_grids = Some [\<lparr> hg_rows = 2, hg_cols = 3,
                                   hg_items = Some [(''0-0'', \<lparr> hc_uuid = help_uuid, hc_type = ''Item'' \<rparr>)] \<rparr>] \<rparr>,
       hs_other = [] \<rparr>"

definition occupied_world :: cpr_world where
  "occupied_world = populate_world\<lparr> cw_persisted := (\<lambda>a. occupied_state) \<rparr>"

text \<open>
  A backpack with three contents, the second of which no longer resolves, and the
  host's resolution of the other two.
\<close>

definition rope :: item_doc where
  "rope = \<lparr> it_uuid = ''Item.rope'', it_name = ''Rope'', it_img = ''rope.png'',
             it_quantity = Some 2, it_uses = None \<rparr>"

definition torch :: item_doc where
  "torch = \<lparr> it_uuid = ''Item.torch'', it_name = ''Torch'', it_img = ''torch.png'',
              it_quantity = None, it_uses = Some (Some 3, None) \<rparr>"

definition backpack :: container_item where
  "backpack = \<lparr> ci_contents = Some [ContentStr ''Item.rope'', ContentObj (Some ''Item.lost''),
                                     ContentObj (Some ''Item.torch'')] \<rparr>"

definition backpack_fromUuid :: "uuid_arg \<Rightarrow> item_doc option" where
  "backpack_fromUuid a =
     (if a = UuidStr ''Item.rope'' then Some rope
      else if a = UuidStr ''Item.torch'' then Some torch else None)"

section \<open>Verification: slot keys\<close>

lemma of_char_digit_char: "d < 10 \<Longrightarrow> (of_char (digit_char d) :: nat) = 48 + d"
  by (simp add: digit_char_def)

lemma digit_char_not_dash: "d < 10 \<Longrightarrow> digit_char d \<noteq> CHR ''-''"
proof
  assume d: "d < 10" and e: "digit_char d = CHR ''-''"
  from e have "(of_char (digit_char d) :: nat) = of_char (CHR ''-'')" by simp
  with d show False by (simp add: of_char_digit_char)
qed

lemma dash_notin_string_of_nat: "CHR ''-'' \<notin> set (string_of_nat n)"
proof (induction n rule: string_of_nat.induct)
  case (1 n)
  show ?case
  proof (cases "n < 10")
    case True
    then show ?thesis
      using digit_char_not_dash [of n] by (subst string_of_nat.simps) auto
  next
    case False
    have "n mod 10 < 10" by simp
    then have "digit_char (n mod 10) \<noteq> CHR ''-''" by (rule digit_char_not_dash)
    with False 1 show ?thesis
      by (subst string_of_nat.simps) auto
  qed
qed

lemma nat_of_string_of_nat: "nat_of_string (string_of_nat n) = n"
proof (induction n rule: string_of_nat.induct)
  case (1 n)
  show ?case
  proof (cases "n < 10")
    case True
    then show ?thesis
      by (subst string_of_nat.simps) (simp add: nat_of_string_def of_char_digit_char)
  next
    case False
    have m: "n mod 10 < 10" by simp
    from False 1 have ih: "nat_of_string (string_of_nat (n div 10)) = n div 10" by simp
    have "nat_of_string (string_of_nat n)
        = 10 * nat_of_string (string_of_nat (n div 10)) + n mod 10"
      using False m by (subst string_of_nat.simps) (simp add: nat_of_string_def of_char_digit_char)
    with ih show ?thesis by simp
  qed
qed

lemma string_of_nat_inj: "string_of_nat n = string_of_nat m \<Longrightarrow> n = m"
  by (metis nat_of_string_of_nat)

lemma split_at_sep:
  "x \<notin> set xs \<Longrightarrow> x \<notin> set xs' \<Longrightarrow> xs @ x # ys = xs' @ x # ys' \<Longrightarrow> xs = xs' \<and> ys = ys'"
proof (induction xs arbitrary: xs')
  case Nil
  then show ?case by (cases xs') auto
next
  case (Cons a xs)
  then show ?case by (cases xs') auto
qed

lemma slotKey_inj: "slotKey c r = slotKey c' r' \<Longrightarrow> c = c' \<and> r = r'"
proof -
  assume "slotKey c r = slotKey c' r'"
  then have "string_of_nat c @ CHR ''-'' # string_of_nat r
           = string_of_nat c' @ CHR ''-'' # string_of_nat r'"
    by (simp add: slotKey_def)
  then have "string_of_nat c = string_of_nat c' \<and> string_of_nat r = string_of_nat r'"
    by (rule split_at_sep [OF dash_notin_string_of_nat dash_notin_string_of_nat])
  then show ?thesis by (simp add: string_of_nat_inj)
qed

lemma slot_index_inj:
  assumes "0 < c" and "slotKey (i mod c) (i div c) = slotKey (j mod c) (j div c)"
  shows "i = j"
proof -
  from assms(2) have "i mod c = j mod c \<and> i div c = j div c" by (rule slotKey_inj)
  then show "i = j" by (metis div_mult_mod_eq)
qed

lemma update_fresh_key: "k \<notin> fst ` set al \<Longrightarrow> AList.update k v al = al @ [(k, v)]"
  by (induction al) auto

section \<open>Verification: container contents\<close>

lemma resolved_contents_Nil: "resolved_contents f [] = []"
  by (simp add: resolved_contents_def map_filter_simps)

lemma resolved_contents_Cons:
  "resolved_contents f (c # cs) =
     (case f (content_ref c) of None \<Rightarrow> resolved_contents f cs
      | Some it \<Rightarrow> it # resolved_contents f cs)"
  by (simp add: resolved_contents_def map_filter_simps split: option.splits)

lemma fill_contents_enumerate:
  "fst ` set items \<subseteq> (\<lambda>i. slotKey (i mod 5) (i div 5)) ` {..<idx} \<Longrightarrow>
   fill_contents f cs items idx =
     (items @ map (\<lambda>(i, item). (slotKey (i mod 5) (i div 5), to_cell item))
                (enumerate idx (resolved_contents f cs)),
      idx + length (resolved_contents f cs))"
proof (induction cs arbitrary: items idx)
  case Nil
  then show ?case by (simp add: resolved_contents_Nil)
next
  case (Cons c cs)
  show ?case
  proof (cases "f (content_ref c)")
    case None
    with Cons show ?thesis by (simp add: resolved_contents_Cons)
  next
    case (Some it)
    let ?k = "slotKey (idx mod 5) (idx div 5)"
    have fresh: "?k \<notin> fst ` set items"
    proof
      assume "?k \<in> fst ` set items"
      with Cons.prems obtain j where "j < idx" and "?k = slotKey (j mod 5) (j div 5)" by auto
      then show False using slot_index_inj [of 5 idx j] by simp
    qed
    have keys: "fst ` set (items @ [(?k, to_cell it)])
                  \<subseteq> (\<lambda>i. slotKey (i mod 5) (i div 5)) ` {..<Suc idx}"
      using Cons.prems by (auto simp: lessThan_Suc)
    from Cons.IH [OF keys] Some fresh show ?thesis
      by (simp add: resolved_contents_Cons update_fresh_key Let_def)
  qed
qed

lemma ceil_fifth: "nat \<lceil>real k / 5\<rceil> = (k + 4) div 5"
proof -
  have "\<lceil>real k / 5\<rceil> = \<lceil>real_of_int (int k) / real_of_int 5\<rceil>" by simp
  also have "\<dots> = - ((- int k) div 5)" by (simp only: ceiling_divide_eq_div)
  also have "\<dots> = (int k + 4) div 5" by presburger
  finally show ?thesis by (simp add: nat_div_distrib)
qed

lemma distinct_slot_keys:
  "distinct (map fst (map (\<lambda>(i, item :: 'a). (slotKey (i mod 5) (i div 5), f item)) (enumerate n xs)))"
proof -
  have "map fst (map (\<lambda>(i, item). (slotKey (i mod 5) (i div 5), f item)) (enumerate n xs))
      = map (\<lambda>i. slotKey (i mod 5) (i div 5)) [n..<n + length xs]"
    by (simp add: enumerate_eq_zip map_equality_iff case_prod_beta comp_def)
  moreover have "distinct (map (\<lambda>i. slotKey (i mod 5) (i div 5)) [n..<n + length xs])"
    by (auto simp: distinct_map inj_on_def dest: slot_index_inj [of 5, rotated])
  ultimately show ?thesis by simp
qed

text \<open>
  Claim C4. For every container item, \<^verbatim>\<open>getContainerContents\<close> returns a grid with
  5 columns and \<open>max(3, ceil(k / 5))\<close> rows, where \<open>k\<close> is the number of contents
  whose reference resolves; the \<open>i\<close>-th resolvable content (counting from 0, in
  contents order, unresolvable entries skipped) is stored under the slot key
  \<^verbatim>\<open>"(i mod 5)-(i div 5)"\<close>, the keys are pairwise distinct so nothing is overwritten
  and no slot in between is left out; a null container yields
  \<^verbatim>\<open>{ rows: 3, cols: 5, items: {} }\<close>.
\<close>

theorem getContainerContents_grid:
  "getContainerContents fromUuid None = \<lparr> g_rows = 3, g_cols = 5, g_items = [] \<rparr> \<and>
   (let rs = resolved_contents fromUuid (case ci_contents c of None \<Rightarrow> [] | Some cs \<Rightarrow> cs);
        k = length rs;
        g = getContainerContents fromUuid (Some c)
    in g_cols g = 5 \<and>
       g_rows g = max 3 (nat \<lceil>real k / 5\<rceil>) \<and>
       g_rows g = max 3 ((k + 4) div 5) \<and>
       g_items g = map (\<lambda>(i, item). (slotKey (i mod 5) (i div 5), to_cell item)) (enumerate 0 rs) \<and>
       distinct (map fst (g_items g)) \<and>
       (\<forall>i < k. map_of (g_items g) (slotKey (i mod 5) (i div 5)) = Some (to_cell (rs ! i))))"
proof -
  define rs where "rs = resolved_contents fromUuid (case ci_contents c of None \<Rightarrow> [] | Some cs \<Rightarrow> cs)"
  define placed where
    "placed = map (\<lambda>(i, item). (slotKey (i mod 5) (i div 5), to_cell item)) (enumerate 0 rs)"
  have "fill_contents fromUuid cs [] 0 =
          (map (\<lambda>(i, item). (slotKey (i mod 5) (i div 5), to_cell item))
             (enumerate 0 (resolved_contents fromUuid cs)),
           length (resolved_contents fromUuid cs))" for cs
    using fill_contents_enumerate [of "[]" 0 fromUuid cs] by simp
  then have grid: "getContainerContents fromUuid (Some c) =
      \<lparr> g_rows = max 3 (nat \<lceil>real (length rs) / 5\<rceil>), g_cols = 5, g_items = placed \<rparr>"
    by (simp add: getContainerContents_def Let_def rs_def placed_def)
  have keys: "distinct (map fst placed)"
    unfolding placed_def by (rule distinct_slot_keys)
  have lookup: "map_of placed (slotKey (i mod 5) (i div 5)) = Some (to_cell (rs ! i))"
    if "i < length rs" for i
  proof -
    from that have "(i, rs ! i) \<in> set (enumerate 0 rs)"
      by (simp add: in_set_enumerate_eq)
    then have "(slotKey (i mod 5) (i div 5), to_cell (rs ! i)) \<in> set placed"
      unfolding placed_def by force
    with keys show ?thesis by simp
  qed
  have null: "getContainerContents fromUuid None = \<lparr> g_rows = 3, g_cols = 5, g_items = [] \<rparr>"
    by (simp add: getContainerContents_def)
  from null keys lookup show ?thesis
    unfolding Let_def rs_def [symmetric] grid
    by (simp add: placed_def [symmetric] ceil_fifth)
qed

theorem getContainerContents_grid_witness:
  "getContainerContents backpack_fromUuid (Some backpack) =
     \<lparr> g_rows = 3, g_cols = 5,
       g_items = [(''0-0'', to_cell rope), (''1-0'', to_cell torch)] \<rparr> \<and>
   map_of (g_items (getContainerContents backpack_fromUuid (Some backpack))) ''1-0''
     = Some \<lparr> c_uuid = ''Item.torch'', c_name = ''Torch'', c_img = ''torch.png'', c_type = ''Item'',
              c_quantity = 1, c_uses = Some \<lparr> u_value = 3, u_max = 0 \<rparr> \<rparr>"
proof -
  have rs: "resolved_contents backpack_fromUuid
              (case ci_contents backpack of None \<Rightarrow> [] | Some cs \<Rightarrow> cs) = [rope, torch]"
    by (simp add: resolved_contents_def backpack_def backpack_fromUuid_def)
  have k0: "slotKey 0 0 = ''0-0''" by code_simp
  have k1: "slotKey 1 0 = ''1-0''" by code_simp
  have cell: "to_cell torch =
      \<lparr> c_uuid = ''Item.torch'', c_name = ''Torch'', c_img = ''torch.png'', c_type = ''Item'',
        c_quantity = 1, c_uses = Some \<lparr> u_value = 3, u_max = 0 \<rparr> \<rparr>"
    by (simp add: to_cell_def torch_def num_or_def)
  have g: "g = \<lparr> g_rows = g_rows g, g_cols = g_cols g, g_items = g_items g \<rparr>" for g :: grid_data
    by simp
  from getContainerContents_grid [of backpack_fromUuid backpack] rs k0 k1
  have "g_rows (getContainerContents backpack_fromUuid (Some backpack)) = 3"
    "g_cols (getContainerContents backpack_fromUuid (Some backpack)) = 5"
    "g_items (getContainerContents backpack_fromUuid (Some backpack))
       = [(''0-0'', to_cell rope), (''1-0'', to_cell torch)]"
    by (simp_all add: Let_def)
  with g [of "getContainerContents backpack_fromUuid (Some backpack)"] cell k0 k1
  show ?thesis by simp
qed

section \<open>Verification: rest dialog\<close>

text \<open>
  Claim C8, as stated, at an actor whose \<^verbatim>\<open>shortRest\<close> is not a function: the dialog
  yields \<^verbatim>\<open>'short'\<close> and \<^verbatim>\<open>actor.shortRest()\<close> is not invoked, because the source
  guards the call with \<^verbatim>\<open>typeof actor.shortRest === 'function'\<close>.
\<close>

theorem showRestDialog_short_counterexample:
  "choose_short [''short'', ''long''] = Some ''short'' \<and>
   ShortRest \<notin> set (showRestDialog choose_short (Some actor_without_shortRest)) \<and>
   showRestDialog choose_short (Some actor_without_shortRest)
     = [ShowButtonChoiceDialog [''short'', ''long'']]"
  by (simp add: showRestDialog_def choose_short_def actor_without_shortRest_def)

text \<open>
  Claim C8, amended. \<^verbatim>\<open>showRestDialog\<close> returns at once, without a dialog, when the
  actor is missing. Otherwise it shows one dialog offering exactly the two actions
  \<^verbatim>\<open>'short'\<close> and \<^verbatim>\<open>'long'\<close>; a \<^verbatim>\<open>'short'\<close> result invokes \<^verbatim>\<open>actor.shortRest()\<close>
  and nothing else provided \<^verbatim>\<open>actor.shortRest\<close> is a function, a \<^verbatim>\<open>'long'\<close> result
  invokes \<^verbatim>\<open>actor.longRest()\<close> and nothing else provided \<^verbatim>\<open>actor.longRest\<close> is a
  function, and in every other case (the method is not a function, the dialog was
  dismissed, any other result) neither rest is invoked.
\<close>

theorem showRestDialog_choices:
  "showRestDialog dialog None = [] \<and>
   (dialog [''short'', ''long''] = Some ''short'' \<and> has_shortRest a \<longrightarrow>
      showRestDialog dialog (Some a) = [ShowButtonChoiceDialog [''short'', ''long''], ShortRest]) \<and>
   (dialog [''short'', ''long''] = Some ''long'' \<and> has_longRest a \<longrightarrow>
      showRestDialog dialog (Some a) = [ShowButtonChoiceDialog [''short'', ''long''], LongRest]) \<and>
   (dialog [''short'', ''long''] = Some ''short'' \<and> \<not> has_shortRest a \<longrightarrow>
      showRestDialog dialog (Some a) = [ShowButtonChoiceDialog [''short'', ''long'']]) \<and>
   (dialog [''short'', ''long''] = Some ''long'' \<and> \<not> has_longRest a \<longrightarrow>
      showRestDialog dialog (Some a) = [ShowButtonChoiceDialog [''short'', ''long'']]) \<and>
   (dialog [''short'', ''long''] \<noteq> Some ''short'' \<and> dialog [''short'', ''long''] \<noteq> Some ''long'' \<longrightarrow>
      showRestDialog dialog (Some a) = [ShowButtonChoiceDialog [''short'', ''long'']])"
  by (simp add: showRestDialog_def Let_def)

theorem showRestDialog_choices_witness:
  "showRestDialog choose_short (Some character_actor)
     = [ShowButtonChoiceDialog [''short'', ''long''], ShortRest] \<and>
   showRestDialog choose_long (Some character_actor)
     = [ShowButtonChoiceDialog [''short'', ''long''], LongRest] \<and>
   showRestDialog dismiss (Some character_actor)
     = [ShowButtonChoiceDialog [''short'', ''long'']] \<and>
   showRestDialog choose_short None = []"
  using showRestDialog_choices [of choose_short character_actor]
        showRestDialog_choices [of choose_long character_actor]
        showRestDialog_choices [of dismiss character_actor]
  by (simp add: choose_short_def choose_long_def dismiss_def character_actor_def)

section \<open>Verification: registration\<close>

text \<open>
  Claim C10. When the active system id is not \<^verbatim>\<open>'dnd5e'\<close> the \<^verbatim>\<open>bg3HudReady\<close> handler
  logs a warning and returns early: it makes no registration call and leaves settings
  and hooks untouched. Hence any registration call in its trace implies that the system
  id is \<^verbatim>\<open>'dnd5e'\<close>. In a dnd5e world whose template fetch and core imports succeed,
  it registers the eight containers, the adapter and the menu builder, and the tooltip
  renderer exactly when the tooltip manager is available.
\<close>

theorem bg3HudReady_dnd5e_only:
  "(system_id env \<noteq> ''dnd5e'' \<longrightarrow>
      bg3HudReady env w hs =
        (Inr (), w, hs,
         [ConsoleLog ''Received bg3HudReady hook'',
          ConsoleWarn ''Not running D&D 5e system, skipping registration''])) \<and>
   (list_ex is_registration (trace_of (bg3HudReady env w hs)) \<longrightarrow> system_id env = ''dnd5e'') \<and>
   (system_id env = ''dnd5e'' \<and> fetch_ok env \<and> core_import_ok env \<longrightarrow>
      set register_containers \<subseteq> set (trace_of (bg3HudReady env w hs)) \<and>
      ApiRegister ''registerAdapter'' ''DnD5eAdapter'' \<in> set (trace_of (bg3HudReady env w hs)) \<and>
      ApiRegister ''registerMenuBuilder'' ''dnd5e'' \<in> set (trace_of (bg3HudReady env w hs)) \<and>
      (ApiRegister ''registerTooltipRenderer'' ''dnd5e'' \<in> set (trace_of (bg3HudReady env w hs))
         \<longleftrightarrow> tooltip_manager env \<noteq> None))"
proof -
  have early: "system_id env \<noteq> ''dnd5e'' \<Longrightarrow>
      bg3HudReady env w hs =
        (Inr (), w, hs,
         [ConsoleLog ''Received bg3HudReady hook'',
          ConsoleWarn ''Not running D&D 5e system, skipping registration''])"
    by (simp add: bg3HudReady_def)
  have only: "list_ex is_registration (trace_of (bg3HudReady env w hs)) \<Longrightarrow> system_id env = ''dnd5e''"
  proof (rule ccontr)
    assume r: "list_ex is_registration (trace_of (bg3HudReady env w hs))"
      and "system_id env \<noteq> ''dnd5e''"
    from early [OF this(2)] r show False by (simp add: trace_of_def)
  qed
  have init_no_reg: "ApiRegister f x \<notin> set (snd (initializeDefaultActions w))" for f x
    by (auto simp: initializeDefaultActions_def Let_def split: option.splits)
  have hooks_no_reg: "ApiRegister f x \<notin> set (snd (registerAdvantageHooks hs))" for f x
    by (auto simp: registerAdvantageHooks_def)
  have full: "system_id env = ''dnd5e'' \<Longrightarrow> fetch_ok env \<Longrightarrow> core_import_ok env \<Longrightarrow>
      trace_of (bg3HudReady env w hs) =
        [ConsoleLog ''Received bg3HudReady hook'', RegisterHelper ''contains'',
         Fetch ''modules/bg3-hud-dnd5e/templates/tooltips/weapon-block.hbs'',
         RegisterPartial ''bg3-hud-dnd5e.weapon-block'',
         ConsoleLog ''Registering D&D 5e components'',
         ImportCore ''PortraitContainer'', ImportCore ''PassivesContainer'',
         ImportCore ''WeaponSetContainer''] @
        register_containers @
        [ApiRegister ''registerAdapter'' ''DnD5eAdapter'',
         ApiRegister ''registerMenuBuilder'' ''dnd5e'',
         ConsoleLog ''Menu builder registered'', GetTooltipManager] @
        register_tooltip (tooltip_manager env) @
        [ConsoleLog ''Registration complete''] @
        snd (initializeDefaultActions w) @
        [HooksCall ''bg3HudRegistrationComplete''] @
        snd (registerAdvantageHooks hs)"
    by (simp add: bg3HudReady_def trace_of_def Let_def split: prod.splits)
  have tooltip: "ApiRegister ''registerTooltipRenderer'' ''dnd5e'' \<in> set (register_tooltip tm)
                   \<longleftrightarrow> tm \<noteq> None" for tm
    by (cases tm) (auto simp: register_tooltip_def)
  have containers_no_tooltip:
    "ApiRegister ''registerTooltipRenderer'' ''dnd5e'' \<notin> set register_containers"
    by (simp add: register_containers_def)
  have pos: "set register_containers \<subseteq> set (trace_of (bg3HudReady env w hs)) \<and>
      ApiRegister ''registerAdapter'' ''DnD5eAdapter'' \<in> set (trace_of (bg3HudReady env w hs)) \<and>
      ApiRegister ''registerMenuBuilder'' ''dnd5e'' \<in> set (trace_of (bg3HudReady env w hs)) \<and>
      (ApiRegister ''registerTooltipRenderer'' ''dnd5e'' \<in> set (trace_of (bg3HudReady env w hs))
         \<longleftrightarrow> tooltip_manager env \<noteq> None)"
    if "system_id env = ''dnd5e''" "fetch_ok env" "core_import_ok env"
    unfolding full [OF that]
    by (simp add: tooltip containers_no_tooltip init_no_reg hooks_no_reg) blast
  from early only pos show ?thesis by blast
qed

theorem bg3HudReady_dnd5e_only_witness:
  "bg3HudReady pf2e_env no_cpr_world no_hooks =
     (Inr (), no_cpr_world, no_hooks,
      [ConsoleLog ''Received bg3HudReady hook'',
       ConsoleWarn ''Not running D&D 5e system, skipping registration'']) \<and>
   ApiRegister ''registerAdapter'' ''DnD5eAdapter''
     \<in> set (trace_of (bg3HudReady dnd5e_env no_cpr_world no_hooks))"
  using bg3HudReady_dnd5e_only [of pf2e_env no_cpr_world no_hooks]
        bg3HudReady_dnd5e_only [of dnd5e_env no_cpr_world no_hooks]
  by (simp add: pf2e_env_def dnd5e_env_def)

section \<open>Verification: advantage hooks\<close>








section \<open>Verification: using an item\<close>

lemma useItem_not_found:
  "resolve w uuid = None \<Longrightarrow>
   useItem h uuid w = (Inr (), w, [FromUuid uuid, NotifyWarn ''ItemNotFound''])"
  by (simp add: useItem_def)

lemma useItem_no_actor:
  "resolve w uuid = Some r \<Longrightarrow> resolve_actor w r = None \<Longrightarrow>
   useItem h uuid w = (Inr (), w, [FromUuid uuid, NotifyWarn ''ItemCannotBeUsed''])"
  by (simp add: useItem_def)

lemma resolve_actor_embedded: "d_parent r = Some a \<Longrightarrow> resolve_actor w r = Some a"
  by (simp add: resolve_actor_def)

lemma useItem_embedded:
  "resolve w uuid = Some r \<Longrightarrow> d_parent r = Some a \<Longrightarrow>
   useItem h uuid w =
     (outcome (use_or_warn h a None r w), final_world (use_or_warn h a None r w),
      FromUuid uuid # ConsoleLog ''Using item'' # calls (use_or_warn h a None r w))"
  by (simp add: useItem_def resolve_actor_embedded outcome_def final_world_def calls_def
        split: prod.splits)

text \<open>The data handed to the host for creation: the clone after the three mutations.\<close>

lemma clone_to_actor_vetoed:
  "create_vetoed h \<Longrightarrow>
   \<exists>w1. clone_to_actor h actor r w =
      (None, None, w1,
       [CreateEmbedded actor (delete_id (migrate_exportSource (ensure_stats (heap w (d_source r)))))]) \<and>
      actor_items w1 = actor_items w \<and> resolve w1 = resolve w \<and>
      (\<forall>a < next_addr w. heap w1 a = heap w a)"
  by (simp add: clone_to_actor_def createEmbeddedDocuments_def toObject_def deepClone_def
        alloc_def mutate_def Let_def split: prod.splits)

lemma clone_to_actor_created:
  "\<not> create_vetoed h \<Longrightarrow>
   \<exists>w1 c. clone_to_actor h actor r w =
      (Some c, Some (new_id h), w1,
       [CreateEmbedded actor (delete_id (migrate_exportSource (ensure_stats (heap w (d_source r)))))]) \<and>
      d_id c = new_id h \<and> d_has_use c = created_has_use h \<and> d_parent c = Some actor \<and>
      next_addr w \<le> d_source c \<and>
      heap w1 (d_source c) =
        (delete_id (migrate_exportSource (ensure_stats (heap w (d_source r)))))\<lparr> data_id := Some (new_id h) \<rparr> \<and>
      actor_items w1 = (actor_items w)(actor := actor_items w actor @ [c]) \<and>
      resolve w1 = resolve w \<and>
      (\<forall>a < next_addr w. heap w1 a = heap w a)"
  by (simp add: clone_to_actor_def createEmbeddedDocuments_def toObject_def deepClone_def
        alloc_def mutate_def Let_def split: prod.splits)

lemma useItem_compendium_vetoed:
  assumes "resolve w uuid = Some r" "d_parent r = None" "resolve_actor w r = Some actor"
    and "clone_to_actor h actor r w = (None, cid, w1, t1)"
  shows "useItem h uuid w = (Inr (), w1, FromUuid uuid # t1 @ [NotifyWarn ''ItemNotFound''])"
  using assms by (simp add: useItem_def)

lemma useItem_compendium_created:
  assumes "resolve w uuid = Some r" "d_parent r = None" "resolve_actor w r = Some actor"
    and "clone_to_actor h actor r w = (Some c, cid, w1, t1)"
  shows "useItem h uuid w =
     (outcome (use_or_warn h actor cid c w1), final_world (use_or_warn h actor cid c w1),
      FromUuid uuid # t1 @ ConsoleLog ''Using item'' # calls (use_or_warn h actor cid c w1))"
  using assms
  by (simp add: useItem_def outcome_def final_world_def calls_def split: prod.splits)

lemma cleanup_created_removes:
  "i \<noteq> [] \<Longrightarrow> \<not> items_has (fst (cleanup_created actor (Some i) w)) actor i"
  by (auto simp: cleanup_created_def items_has_def deleteEmbeddedDocuments_def)

lemma cleanup_created_none: "cleanup_created actor None w = (w, [])"
  by (simp add: cleanup_created_def)

lemma cleanup_created_heap: "heap (fst (cleanup_created actor cid w)) = heap w"
  by (simp add: cleanup_created_def deleteEmbeddedDocuments_def split: option.splits)

lemma cleanup_created_resolve: "resolve (fst (cleanup_created actor cid w)) = resolve w"
  by (simp add: cleanup_created_def deleteEmbeddedDocuments_def split: option.splits)

lemma cleanup_created_no_use: "use_calls (snd (cleanup_created actor cid w)) = []"
  by (simp add: cleanup_created_def use_calls_def split: option.splits)

lemma cleanup_created_no_notification:
  "\<not> list_ex is_notification (snd (cleanup_created actor cid w))"
  by (simp add: cleanup_created_def split: option.splits)

lemma use_or_warn_use:
  "d_has_use c \<Longrightarrow>
   use_or_warn h actor cid c w =
     (if fst (item_use h c w) then Inl (Thrown ''use'') else Inr (),
      fst (cleanup_created actor cid (snd (item_use h c w))),
      ItemUse (d_id c) # snd (cleanup_created actor cid (snd (item_use h c w))))"
  by (simp add: use_or_warn_def split: prod.splits)

lemma use_or_warn_warn:
  "\<not> d_has_use c \<Longrightarrow>
   use_or_warn h actor cid c w =
     (Inr (), fst (cleanup_created actor cid w),
      snd (cleanup_created actor cid w) @ [NotifyWarn ''ItemCannotBeUsed''])"
  by (simp add: use_or_warn_def split: prod.splits)

lemma use_or_warn_removes:
  "i \<noteq> [] \<Longrightarrow> \<not> items_has (final_world (use_or_warn h actor (Some i) c w)) actor i"
  by (cases "d_has_use c")
     (simp_all add: use_or_warn_use use_or_warn_warn final_world_def cleanup_created_removes)


section \<open>Verification: the CPR Generic Actions click\<close>

lemma clone_permanent_result:
  "\<exists>w1 created. clone_permanent h actor r w =
      (created, w1, [CreateEmbedded actor (delete_id (heap w (d_source r)))]) \<and>
      resolve w1 = resolve w \<and> (\<forall>x < next_addr w. heap w1 x = heap w x) \<and>
      (created = None \<longleftrightarrow> create_vetoed h)"
  by (simp add: clone_permanent_def createEmbeddedDocuments_def toObject_def deepClone_def
        alloc_def mutate_def Let_def split: prod.splits)

lemma use_actor_item_cases:
  "use_actor_item h it w = (Inr (), w, [NotifyWarn ''ItemCannotBeUsed'']) \<or>
   (\<exists>r. use_actor_item h it w = (r, snd (item_use h it w), [ItemUse (d_id it)]))"
  by (simp add: use_actor_item_def split: prod.splits)

lemma onClick_body_not_found:
  "find (\<lambda>i. d_name i = generic_actions_name rv) (actor_items w a) = None \<Longrightarrow>
   resolve w (getCPRGenericActionsUUID rv) = None \<Longrightarrow>
   onClick_body h rv (Some a) w =
     (Inr (), w,
      [SettingsGet ''dnd5e'' ''rulesVersion'', SettingsGet ''dnd5e'' ''rulesVersion'',
       FromUuid (getCPRGenericActionsUUID rv), NotifyWarn ''CPRGenericActionsNotFound''])"
  by (simp add: onClick_body_def Let_def)

lemma onClick_final_world: "final_world (onClick h rv this_actor w) = final_world (onClick_body h rv this_actor w)"
  by (simp add: onClick_def final_world_def split: prod.splits sum.splits)

lemma onClick_calls_prefix:
  "set (calls (onClick_body h rv this_actor w)) \<subseteq> set (calls (onClick h rv this_actor w))"
  by (auto simp: onClick_def calls_def split: prod.splits sum.splits)

lemma onClick_body_clone:
  assumes "find (\<lambda>i. d_name i = generic_actions_name rv) (actor_items w a) = None"
    and "resolve w (getCPRGenericActionsUUID rv) = Some r"
  shows "CreateEmbedded a (delete_id (heap w (d_source r))) \<in> set (calls (onClick_body h rv (Some a) w))"
proof -
  obtain w1 created where c: "clone_permanent h a r w =
      (created, w1, [CreateEmbedded a (delete_id (heap w (d_source r)))])"
    using clone_permanent_result [of h a r w] by blast
  show ?thesis
    using assms c
    by (auto simp: onClick_body_def Let_def calls_def split: option.splits prod.splits)
qed

lemma onClick_body_frame:
  assumes "x < next_addr w"
    and "\<And>d w0. heap (snd (item_use h d w0)) x = heap w0 x"
  shows "heap (final_world (onClick_body h rv this_actor w)) x = heap w x"
proof (cases this_actor)
  case None
  then show ?thesis by (simp add: onClick_body_def final_world_def)
next
  case (Some a)
  show ?thesis
  proof (cases "find (\<lambda>i. d_name i = generic_actions_name rv) (actor_items w a)")
    case (Some it)
    with \<open>this_actor = Some a\<close> assms(2) use_actor_item_cases [of h it w] show ?thesis
      by (auto simp: onClick_body_def Let_def final_world_def split: prod.splits)
  next
    case None
    show ?thesis
    proof (cases "resolve w (getCPRGenericActionsUUID rv)")
      case None
      with \<open>this_actor = Some a\<close> \<open>find _ _ = None\<close> show ?thesis
        by (simp add: onClick_body_not_found final_world_def)
    next
      case (Some r)
      obtain w1 created where c: "clone_permanent h a r w =
          (created, w1, [CreateEmbedded a (delete_id (heap w (d_source r)))])"
        and h1: "\<forall>x < next_addr w. heap w1 x = heap w x"
        using clone_permanent_result [of h a r w] by blast
      show ?thesis
      proof (cases created)
        case None
        with \<open>this_actor = Some a\<close> \<open>find _ _ = None\<close> Some c h1 assms(1) show ?thesis
          by (simp add: onClick_body_def Let_def final_world_def)
      next
        case (Some it)
        with \<open>this_actor = Some a\<close> \<open>find _ _ = None\<close> \<open>resolve w _ = Some r\<close> c h1 assms
          use_actor_item_cases [of h it w1]
        show ?thesis
          by (auto simp: onClick_body_def Let_def final_world_def split: prod.splits)
      qed
    qed
  qed
qed

lemma clone_permanent_created:
  "\<not> create_vetoed h \<Longrightarrow>
   \<exists>w1 c. clone_permanent h actor r w =
      (Some c, w1, [CreateEmbedded actor (delete_id (heap w (d_source r)))]) \<and>
      d_id c = new_id h \<and> d_has_use c = created_has_use h \<and> d_parent c = Some actor \<and>
      d_name c = data_name (heap w (d_source r)) \<and>
      next_addr w \<le> d_source c \<and>
      heap w1 (d_source c) = (delete_id (heap w (d_source r)))\<lparr> data_id := Some (new_id h) \<rparr> \<and>
      actor_items w1 = (actor_items w)(actor := actor_items w actor @ [c]) \<and>
      resolve w1 = resolve w \<and>
      (\<forall>x < next_addr w. heap w1 x = heap w x)"
  by (simp add: clone_permanent_def createEmbeddedDocuments_def toObject_def deepClone_def
        alloc_def mutate_def delete_id_def Let_def split: prod.splits)

lemma onClick_body_created:
  assumes "find (\<lambda>i. d_name i = generic_actions_name rv) (actor_items w a) = None"
    and "resolve w (getCPRGenericActionsUUID rv) = Some r"
    and "clone_permanent h a r w = (Some c, w1, t2)"
  shows "onClick_body h rv (Some a) w =
     (outcome (use_actor_item h c w1), final_world (use_actor_item h c w1),
      [SettingsGet ''dnd5e'' ''rulesVersion'', SettingsGet ''dnd5e'' ''rulesVersion'',
       FromUuid (getCPRGenericActionsUUID rv)] @ t2 @
      [ConsoleLog ''Created CPR Generic Actions item on actor''] @ calls (use_actor_item h c w1))"
  using assms
  by (simp add: onClick_body_def Let_def outcome_def final_world_def calls_def split: prod.splits)

lemma use_actor_item_world:
  "final_world (use_actor_item h c w) = (if d_has_use c then snd (item_use h c w) else w)"
  by (simp add: use_actor_item_def final_world_def split: prod.splits)

lemma use_actor_item_calls:
  "calls (use_actor_item h c w) =
     (if d_has_use c then [ItemUse (d_id c)] else [NotifyWarn ''ItemCannotBeUsed''])"
  by (simp add: use_actor_item_def calls_def split: prod.splits)

section \<open>Verification: missing packs, entries and items\<close>

text \<open>
  Claim C1, as stated, at a host with chris-premades active, no selection stored and no
  CPR pack installed: \<^verbatim>\<open>initializeDefaultActions\<close> finds no pack, and the only
  warning it emits is \<^verbatim>\<open>console.warn\<close>. No notification is shown to the user.
\<close>

theorem initializeDefaultActions_pack_absent_counterexample:
  "cw_cpr_active cpr_without_pack \<and>
   cw_packs cpr_without_pack (packId (getCPRConfig (cw_rulesVersion cpr_without_pack))) = None \<and>
   initializeDefaultActions cpr_without_pack =
     (cpr_without_pack,
      [SettingsGet ''dnd5e'' ''rulesVersion'',
       SettingsGet MODULE_ID ''selectedCPRActionsModern'',
       PacksGet ''chris-premades.CPRActions2024'',
       ConsoleWarn ''CPR pack not found'']) \<and>
   \<not> list_ex is_notification (snd (initializeDefaultActions cpr_without_pack))"
  by (simp add: initializeDefaultActions_def cpr_without_pack_def no_cpr_world_def
        getCPRConfig_def Let_def)

text \<open>
  Claim C1, amended. Each of the three operations, when its lookup finds nothing,
  makes that lookup once (no retry), emits one warning, leaves the host state as it
  was and returns normally: \<^verbatim>\<open>_useItem\<close> shows the notification \<^verbatim>\<open>ItemNotFound\<close> when
  \<^verbatim>\<open>fromUuid\<close> resolves to nothing; the CPR Generic Actions click shows the notification
  \<^verbatim>\<open>CPRGenericActionsNotFound\<close> when the actor lacks the item and the compendium item is
  absent; \<^verbatim>\<open>initializeDefaultActions\<close> writes a warning to the console, and shows no
  notification, when the CPR pack is absent. (\<^verbatim>\<open>initializeDefaultActions\<close> catches every
  exception of its lookups, so its model has no error outcome.)
\<close>

theorem missing_lookup_warns:
  "(resolve w uuid = None \<longrightarrow>
      useItem h uuid w = (Inr (), w, [FromUuid uuid, NotifyWarn ''ItemNotFound''])) \<and>
   (find (\<lambda>i. d_name i = generic_actions_name rv) (actor_items w a) = None \<and>
    resolve w (getCPRGenericActionsUUID rv) = None \<longrightarrow>
      onClick h rv (Some a) w =
        (Inr (), w,
         [SettingsGet ''dnd5e'' ''rulesVersion'', SettingsGet ''dnd5e'' ''rulesVersion'',
          FromUuid (getCPRGenericActionsUUID rv), NotifyWarn ''CPRGenericActionsNotFound''])) \<and>
   (cw_cpr_active cw \<and>
    (cw_selected cw (settingsKey (getCPRConfig (cw_rulesVersion cw))) = None \<or>
     cw_selected cw (settingsKey (getCPRConfig (cw_rulesVersion cw))) = Some []) \<and>
    cw_packs cw (packId (getCPRConfig (cw_rulesVersion cw))) = None \<longrightarrow>
      initializeDefaultActions cw =
        (cw,
         [SettingsGet ''dnd5e'' ''rulesVersion'',
          SettingsGet MODULE_ID (settingsKey (getCPRConfig (cw_rulesVersion cw))),
          PacksGet (packId (getCPRConfig (cw_rulesVersion cw))),
          ConsoleWarn ''CPR pack not found'']))"
proof -
  have a: "resolve w uuid = None \<Longrightarrow>
      useItem h uuid w = (Inr (), w, [FromUuid uuid, NotifyWarn ''ItemNotFound''])"
    by (rule useItem_not_found)
  have b: "find (\<lambda>i. d_name i = generic_actions_name rv) (actor_items w a) = None \<Longrightarrow>
      resolve w (getCPRGenericActionsUUID rv) = None \<Longrightarrow>
      onClick h rv (Some a) w =
        (Inr (), w,
         [SettingsGet ''dnd5e'' ''rulesVersion'', SettingsGet ''dnd5e'' ''rulesVersion'',
          FromUuid (getCPRGenericActionsUUID rv), NotifyWarn ''CPRGenericActionsNotFound''])"
    by (simp add: onClick_def onClick_body_not_found)
  have c: "cw_cpr_active cw \<Longrightarrow>
      cw_selected cw (settingsKey (getCPRConfig (cw_rulesVersion cw))) = None \<or>
      cw_selected cw (settingsKey (getCPRConfig (cw_rulesVersion cw))) = Some [] \<Longrightarrow>
      cw_packs cw (packId (getCPRConfig (cw_rulesVersion cw))) = None \<Longrightarrow>
      initializeDefaultActions cw =
        (cw,
         [SettingsGet ''dnd5e'' ''rulesVersion'',
          SettingsGet MODULE_ID (settingsKey (getCPRConfig (cw_rulesVersion cw))),
          PacksGet (packId (getCPRConfig (cw_rulesVersion cw))),
          ConsoleWarn ''CPR pack not found''])"
    by (auto simp: initializeDefaultActions_def Let_def)
  from a b c show ?thesis by blast
qed

theorem missing_lookup_warns_witness:
  "useItem quiet_host ''Item.missing'' hud_world =
     (Inr (), hud_world, [FromUuid ''Item.missing'', NotifyWarn ''ItemNotFound'']) \<and>
   onClick quiet_host ''modern'' (Some ''hero'') hud_world =
     (Inr (), hud_world,
      [SettingsGet ''dnd5e'' ''rulesVersion'', SettingsGet ''dnd5e'' ''rulesVersion'',
       FromUuid CPR_GENERIC_ACTIONS_modern, NotifyWarn ''CPRGenericActionsNotFound'']) \<and>
   initializeDefaultActions cpr_without_pack =
     (cpr_without_pack,
      [SettingsGet ''dnd5e'' ''rulesVersion'',
       SettingsGet MODULE_ID ''selectedCPRActionsModern'',
       PacksGet ''chris-premades.CPRActions2024'',
       ConsoleWarn ''CPR pack not found''])"
  using missing_lookup_warns [of hud_world "''Item.missing''" quiet_host "''modern''" "''hero''"
          cpr_without_pack]
  by (simp add: hud_world_def bare_world_def fireball_uuid_def sword_uuid_def sword_def
        generic_actions_name_def getCPRGenericActionsUUID_def CPR_GENERIC_ACTIONS_modern_def
        cpr_without_pack_def no_cpr_world_def getCPRConfig_def)

section \<open>Verification: clicking a hotbar cell\<close>

lemma onCellClick_item:
  "cd_type data = ''Item'' \<Longrightarrow>
   onCellClick h (Some data) w =
     (outcome (useItem h (cd_uuid data) w), final_world (useItem h (cd_uuid data) w),
      ConsoleLog ''Cell clicked'' # calls (useItem h (cd_uuid data) w))"
  by (simp add: onCellClick_def outcome_def final_world_def calls_def split: prod.splits)

lemma use_calls_simps:
  "use_calls [] = []"
  "use_calls (ItemUse i # t) = ItemUse i # use_calls t"
  "use_calls (ConsoleLog s # t) = use_calls t"
  "use_calls (FromUuid u # t) = use_calls t"
  "use_calls (NotifyWarn k # t) = use_calls t"
  "use_calls (CreateEmbedded a d # t) = use_calls t"
  "use_calls (DeleteEmbedded a i # t) = use_calls t"
  "use_calls (t @ t') = use_calls t @ use_calls t'"
  by (simp_all add: use_calls_def)

text \<open>
  Claim C2, as stated, at a cell of type \<^verbatim>\<open>'Item'\<close> whose UUID resolves to a compendium
  item with a \<^verbatim>\<open>use()\<close> function, while the HUD shows no actor and no token is
  controlled: \<^verbatim>\<open>use()\<close> is not invoked; the click ends with the warning
  \<^verbatim>\<open>ItemCannotBeUsed\<close>, by the guard \<^verbatim>\<open>if (!actor)\<close> of \<^verbatim>\<open>_useItem\<close>.
\<close>

theorem onCellClick_no_actor_counterexample:
  "cd_type fireball_cell = ''Item'' \<and>
   resolve bare_world (cd_uuid fireball_cell) = Some fireball \<and>
   d_has_use fireball \<and>
   use_calls (calls (onCellClick quiet_host (Some fireball_cell) bare_world)) = [] \<and>
   calls (onCellClick quiet_host (Some fireball_cell) bare_world) =
     [ConsoleLog ''Cell clicked'', FromUuid fireball_uuid, NotifyWarn ''ItemCannotBeUsed'']"
  by (simp add: onCellClick_def useItem_def resolve_actor_def fireball_cell_def bare_world_def
        fireball_def calls_def use_calls_def)

text \<open>
  Claim C2, amended. For a cell of type \<^verbatim>\<open>'Item'\<close> whose UUID resolves to an item
  embedded on an actor, clicking invokes that item's \<^verbatim>\<open>use()\<close> exactly once when it is
  a function, the host state afterwards is exactly what \<^verbatim>\<open>use()\<close> left (the adapter
  computes nothing itself) and no notification is shown; when the item has no
  \<^verbatim>\<open>use()\<close> function a warning is shown instead. For an item that is not embedded (a
  compendium item), \<^verbatim>\<open>use()\<close> is invoked exactly once on the clone created on the
  resolved actor, provided an actor resolves, the creation yields a document and the
  clone has a \<^verbatim>\<open>use()\<close> function; in each other case \<^verbatim>\<open>use()\<close> is not invoked and a
  warning is shown (\<^verbatim>\<open>ItemCannotBeUsed\<close> without an actor or without a \<^verbatim>\<open>use()\<close>
  function, \<^verbatim>\<open>ItemNotFound\<close> when nothing was created).
\<close>

theorem onCellClick_uses_item:
  assumes "cd_type data = ''Item''" and "resolve w (cd_uuid data) = Some r"
  shows
   "(d_parent r = Some a \<and> d_has_use r \<longrightarrow>
       use_calls (calls (onCellClick h (Some data) w)) = [ItemUse (d_id r)] \<and>
       final_world (onCellClick h (Some data) w) = snd (item_use h r w) \<and>
       \<not> list_ex is_notification (calls (onCellClick h (Some data) w))) \<and>
    (d_parent r = Some a \<and> \<not> d_has_use r \<longrightarrow>
       onCellClick h (Some data) w =
         (Inr (), w,
          [ConsoleLog ''Cell clicked'', FromUuid (cd_uuid data), ConsoleLog ''Using item'',
           NotifyWarn ''ItemCannotBeUsed''])) \<and>
    (d_parent r = None \<and> resolve_actor w r = None \<longrightarrow>
       onCellClick h (Some data) w =
         (Inr (), w,
          [ConsoleLog ''Cell clicked'', FromUuid (cd_uuid data), NotifyWarn ''ItemCannotBeUsed''])) \<and>
    (d_parent r = None \<and> resolve_actor w r = Some actor \<and> \<not> create_vetoed h \<and> created_has_use h \<longrightarrow>
       use_calls (calls (onCellClick h (Some data) w)) = [ItemUse (new_id h)] \<and>
       \<not> list_ex is_notification (calls (onCellClick h (Some data) w))) \<and>
    (d_parent r = None \<and> resolve_actor w r = Some actor \<and> \<not> create_vetoed h \<and> \<not> created_has_use h \<longrightarrow>
       use_calls (calls (onCellClick h (Some data) w)) = [] \<and>
       NotifyWarn ''ItemCannotBeUsed'' \<in> set (calls (onCellClick h (Some data) w))) \<and>
    (d_parent r = None \<and> resolve_actor w r = Some actor \<and> create_vetoed h \<longrightarrow>
       use_calls (calls (onCellClick h (Some data) w)) = [] \<and>
       NotifyWarn ''ItemNotFound'' \<in> set (calls (onCellClick h (Some data) w)))"
proof -
  note click = onCellClick_item [OF assms(1), of h w]
  have embedded_use: "use_calls (calls (onCellClick h (Some data) w)) = [ItemUse (d_id r)] \<and>
       final_world (onCellClick h (Some data) w) = snd (item_use h r w) \<and>
       \<not> list_ex is_notification (calls (onCellClick h (Some data) w))"
    if "d_parent r = Some a" "d_has_use r"
    using that assms(2)
    by (simp add: click useItem_embedded use_or_warn_use cleanup_created_none
          calls_def final_world_def outcome_def use_calls_def)
  have embedded_warn: "onCellClick h (Some data) w =
         (Inr (), w,
          [ConsoleLog ''Cell clicked'', FromUuid (cd_uuid data), ConsoleLog ''Using item'',
           NotifyWarn ''ItemCannotBeUsed''])"
    if "d_parent r = Some a" "\<not> d_has_use r"
    using that assms(2)
    by (simp add: click useItem_embedded use_or_warn_warn cleanup_created_none
          calls_def final_world_def outcome_def)
  have no_actor: "onCellClick h (Some data) w =
         (Inr (), w,
          [ConsoleLog ''Cell clicked'', FromUuid (cd_uuid data), NotifyWarn ''ItemCannotBeUsed''])"
    if "resolve_actor w r = None"
    using that assms(2)
    by (simp add: click useItem_no_actor calls_def final_world_def outcome_def)
  have clone_use: "use_calls (calls (onCellClick h (Some data) w)) = [ItemUse (new_id h)] \<and>
       \<not> list_ex is_notification (calls (onCellClick h (Some data) w))"
    if p: "d_parent r = None" "resolve_actor w r = Some actor" and c: "\<not> create_vetoed h" "created_has_use h"
  proof -
    from clone_to_actor_created [OF c(1), of actor r w]
    obtain w1 cl t1 where cl: "clone_to_actor h actor r w = (Some cl, Some (new_id h), w1, t1)"
      "t1 = [CreateEmbedded actor (delete_id (migrate_exportSource (ensure_stats (heap w (d_source r)))))]"
      "d_id cl = new_id h" "d_has_use cl = created_has_use h"
      by blast
    from useItem_compendium_created [OF assms(2) p cl(1)] cl c show ?thesis
      by (simp add: click use_or_warn_use calls_def use_calls_simps cleanup_created_no_use
            cleanup_created_no_notification)
  qed
  have clone_warn: "use_calls (calls (onCellClick h (Some data) w)) = [] \<and>
       NotifyWarn ''ItemCannotBeUsed'' \<in> set (calls (onCellClick h (Some data) w))"
    if p: "d_parent r = None" "resolve_actor w r = Some actor" and c: "\<not> create_vetoed h" "\<not> created_has_use h"
  proof -
    from clone_to_actor_created [OF c(1), of actor r w]
    obtain w1 cl t1 where cl: "clone_to_actor h actor r w = (Some cl, Some (new_id h), w1, t1)"
      "t1 = [CreateEmbedded actor (delete_id (migrate_exportSource (ensure_stats (heap w (d_source r)))))]"
      "d_id cl = new_id h" "d_has_use cl = created_has_use h"
      by blast
    from useItem_compendium_created [OF assms(2) p cl(1)] cl c show ?thesis
      by (simp add: click use_or_warn_warn calls_def use_calls_simps cleanup_created_no_use)
  qed
  have vetoed: "use_calls (calls (onCellClick h (Some data) w)) = [] \<and>
       NotifyWarn ''ItemNotFound'' \<in> set (calls (onCellClick h (Some data) w))"
    if p: "d_parent r = None" "resolve_actor w r = Some actor" and c: "create_vetoed h"
  proof -
    from clone_to_actor_vetoed [OF c, of actor r w]
    obtain w1 where cl: "clone_to_actor h actor r w =
      (None, None, w1,
       [CreateEmbedded actor (delete_id (migrate_exportSource (ensure_stats (heap w (d_source r)))))])"
      by blast
    from useItem_compendium_vetoed [OF assms(2) p cl] show ?thesis
      by (simp add: click calls_def use_calls_simps)
  qed
  from embedded_use embedded_warn no_actor clone_use clone_warn vetoed show ?thesis by blast
qed

theorem onCellClick_uses_item_witness:
  "use_calls (calls (onCellClick quiet_host (Some sword_cell) hud_world)) = [ItemUse ''sword''] \<and>
   use_calls (calls (onCellClick quiet_host (Some fireball_cell) hud_world)) = [ItemUse ''tmp''] \<and>
   onCellClick quiet_host (Some fireball_cell) bare_world =
     (Inr (), bare_world,
      [ConsoleLog ''Cell clicked'', FromUuid fireball_uuid, NotifyWarn ''ItemCannotBeUsed''])"
proof -
  have s: "cd_type sword_cell = ''Item''" "resolve hud_world (cd_uuid sword_cell) = Some sword"
    "d_parent sword = Some ''hero''" "d_has_use sword" "d_id sword = ''sword''"
    by (simp_all add: sword_cell_def hud_world_def bare_world_def sword_def sword_uuid_def
          fireball_uuid_def)
  have f: "cd_type fireball_cell = ''Item''" "resolve hud_world (cd_uuid fireball_cell) = Some fireball"
    "resolve bare_world (cd_uuid fireball_cell) = Some fireball"
    "d_parent fireball = None" "resolve_actor hud_world fireball = Some ''hero''"
    "resolve_actor bare_world fireball = None"
    "\<not> create_vetoed quiet_host" "created_has_use quiet_host" "new_id quiet_host = ''tmp''"
    "cd_uuid fireball_cell = fireball_uuid"
    by (simp_all add: fireball_cell_def hud_world_def bare_world_def fireball_def
          resolve_actor_def quiet_host_def)
  from onCellClick_uses_item [OF s(1,2), of "''hero''" quiet_host "''hero''"]
       onCellClick_uses_item [OF f(1,2), of "''hero''" quiet_host "''hero''"]
       onCellClick_uses_item [OF f(1,3), of "''hero''" quiet_host "''hero''"]
       s f
  show ?thesis by simp
qed

section \<open>Verification: the temporary clone\<close>

text \<open>
  Claim C3. For an item that is not embedded, with an actor resolved and the host
  assigning the created document a non-empty id not in use on that actor: after
  \<^verbatim>\<open>_useItem\<close>, whether it returned or \<^verbatim>\<open>use()\<close> threw, the actor's items hold no
  document with the created id. Unless the creation was vetoed, the clone was in the
  actor's items when \<^verbatim>\<open>use()\<close> ran, the final state is the one \<^verbatim>\<open>use()\<close> left with
  the clone deleted, and an exception of \<^verbatim>\<open>use()\<close> propagates after that clean-up; a
  clone without a \<^verbatim>\<open>use()\<close> function is deleted straight away. If \<^verbatim>\<open>use()\<close> itself
  leaves the actor's items alone, they end up exactly as they were before the call.
\<close>

theorem useItem_cleans_up:
  assumes "resolve w uuid = Some r" and "d_parent r = None"
    and "resolve_actor w r = Some actor"
    and "new_id h \<noteq> []" and "\<not> items_has w actor (new_id h)"
  shows
   "\<not> items_has (final_world (useItem h uuid w)) actor (new_id h) \<and>
    (\<not> create_vetoed h \<longrightarrow>
       (\<exists>c w1 t1. clone_to_actor h actor r w = (Some c, Some (new_id h), w1, t1) \<and>
          d_id c = new_id h \<and> d_has_use c = created_has_use h \<and>
          items_has w1 actor (new_id h) \<and>
          (d_has_use c \<longrightarrow>
             final_world (useItem h uuid w) =
               fst (cleanup_created actor (Some (new_id h)) (snd (item_use h c w1))) \<and>
             outcome (useItem h uuid w) =
               (if fst (item_use h c w1) then Inl (Thrown ''use'') else Inr ())) \<and>
          (\<not> d_has_use c \<longrightarrow>
             final_world (useItem h uuid w) = deleteEmbeddedDocuments actor (new_id h) w1))) \<and>
    ((\<forall>d w0. actor_items (snd (item_use h d w0)) actor = actor_items w0 actor) \<longrightarrow>
       actor_items (final_world (useItem h uuid w)) actor = actor_items w actor)"
proof (cases "create_vetoed h")
  case True
  from clone_to_actor_vetoed [OF True, of actor r w]
  obtain w1 where cl: "clone_to_actor h actor r w =
      (None, None, w1,
       [CreateEmbedded actor (delete_id (migrate_exportSource (ensure_stats (heap w (d_source r)))))])"
    and items: "actor_items w1 = actor_items w"
    by blast
  from useItem_compendium_vetoed [OF assms(1-3) cl] items assms(5) True show ?thesis
    by (simp add: final_world_def items_has_def)
next
  case False
  from clone_to_actor_created [OF False, of actor r w]
  obtain w1 c where cl: "clone_to_actor h actor r w =
      (Some c, Some (new_id h), w1,
       [CreateEmbedded actor (delete_id (migrate_exportSource (ensure_stats (heap w (d_source r)))))])"
    and c: "d_id c = new_id h" and cu: "d_has_use c = created_has_use h"
    and items: "actor_items w1 = (actor_items w)(actor := actor_items w actor @ [c])"
    by blast
  note run = useItem_compendium_created [OF assms(1-3) cl]
  have gone: "\<not> items_has (final_world (useItem h uuid w)) actor (new_id h)"
    by (simp add: run final_world_def)
       (metis assms(4) final_world_def use_or_warn_removes)
  have present: "items_has w1 actor (new_id h)"
    by (simp add: items items_has_def c)
  have used: "final_world (useItem h uuid w) =
               fst (cleanup_created actor (Some (new_id h)) (snd (item_use h c w1))) \<and>
             outcome (useItem h uuid w) =
               (if fst (item_use h c w1) then Inl (Thrown ''use'') else Inr ())"
    if "d_has_use c"
    using that by (simp add: run use_or_warn_use final_world_def outcome_def)
  have unused: "final_world (useItem h uuid w) = deleteEmbeddedDocuments actor (new_id h) w1"
    if "\<not> d_has_use c"
    using that present assms(4)
    by (simp add: run use_or_warn_warn final_world_def cleanup_created_def)
  have filter_back: "filter (\<lambda>d. d_id d \<noteq> new_id h) (actor_items w actor @ [c]) = actor_items w actor"
    using assms(5) c by (force simp: items_has_def filter_id_conv)
  have restored: "actor_items (final_world (useItem h uuid w)) actor = actor_items w actor"
    if frame: "\<forall>d w0. actor_items (snd (item_use h d w0)) actor = actor_items w0 actor"
  proof (cases "d_has_use c")
    case True
    have "items_has (snd (item_use h c w1)) actor (new_id h)"
      using frame present by (simp add: items_has_def)
    with True frame assms(4) filter_back show ?thesis
      by (simp add: used cleanup_created_def deleteEmbeddedDocuments_def items)
  next
    case False
    with filter_back show ?thesis
      by (simp add: unused deleteEmbeddedDocuments_def items)
  qed
  from False gone cl c cu present used unused restored show ?thesis by blast
qed

theorem useItem_cleans_up_witness:
  "\<not> items_has (final_world (useItem throwing_host fireball_uuid hud_world)) ''hero'' ''tmp'' \<and>
   actor_items (final_world (useItem throwing_host fireball_uuid hud_world)) ''hero'' = [sword] \<and>
   outcome (useItem throwing_host fireball_uuid hud_world) = Inl (Thrown ''use'')"
proof -
  have p: "resolve hud_world fireball_uuid = Some fireball" "d_parent fireball = None"
    "resolve_actor hud_world fireball = Some ''hero''"
    "new_id throwing_host \<noteq> []" "\<not> items_has hud_world ''hero'' (new_id throwing_host)"
    by (simp_all add: hud_world_def bare_world_def fireball_def resolve_actor_def
          throwing_host_def quiet_host_def items_has_def sword_def)
  have q: "\<forall>d w0. actor_items (snd (item_use throwing_host d w0)) ''hero'' = actor_items w0 ''hero''"
    "new_id throwing_host = ''tmp''" "actor_items hud_world ''hero'' = [sword]"
    by (simp_all add: throwing_host_def quiet_host_def hud_world_def bare_world_def)
  have u: "\<not> create_vetoed throwing_host" "created_has_use throwing_host"
    "\<And>d w0. fst (item_use throwing_host d w0)"
    by (simp_all add: throwing_host_def quiet_host_def)
  from useItem_cleans_up [OF p] q u show ?thesis by auto
qed

section \<open>Verification: the compendium is left alone\<close>

lemma use_or_warn_heap:
  assumes "\<And>d w0. heap (snd (item_use h d w0)) x = heap w0 x"
  shows "heap (final_world (use_or_warn h actor cid c w)) x = heap w x"
  using assms
  by (cases "d_has_use c")
     (simp_all add: use_or_warn_use use_or_warn_warn final_world_def cleanup_created_heap)

lemma use_or_warn_resolve:
  assumes "\<And>d w0. resolve (snd (item_use h d w0)) = resolve w0"
  shows "resolve (final_world (use_or_warn h actor cid c w)) = resolve w"
  using assms
  by (cases "d_has_use c")
     (simp_all add: use_or_warn_use use_or_warn_warn final_world_def cleanup_created_resolve)

lemma useItem_heap_frame:
  assumes "x < next_addr w"
    and frame: "\<And>d w0. heap (snd (item_use h d w0)) x = heap w0 x"
  shows "heap (final_world (useItem h uuid w)) x = heap w x"
proof (cases "resolve w uuid")
  case None
  then show ?thesis by (simp add: useItem_not_found final_world_def)
next
  case (Some r)
  show ?thesis
  proof (cases "resolve_actor w r")
    case None
    with Some show ?thesis by (simp add: useItem_no_actor final_world_def)
  next
    case actor: (Some actor)
    show ?thesis
    proof (cases "d_parent r")
      case (Some a)
      from useItem_embedded [OF \<open>resolve w uuid = Some r\<close> Some, of h] show ?thesis
        by (simp add: final_world_def [of "(a, b, c)" for a b c] use_or_warn_heap [OF frame])
    next
      case None
      show ?thesis
      proof (cases "create_vetoed h")
        case True
        from clone_to_actor_vetoed [OF True, of actor r w]
        obtain w1 t1 where cl: "clone_to_actor h actor r w = (None, None, w1, t1)"
          and keep: "\<forall>a < next_addr w. heap w1 a = heap w a"
          by blast
        from useItem_compendium_vetoed [OF \<open>resolve w uuid = Some r\<close> None actor cl] keep assms(1)
        show ?thesis by (simp add: final_world_def)
      next
        case False
        from clone_to_actor_created [OF False, of actor r w]
        obtain w1 c t1 where cl: "clone_to_actor h actor r w = (Some c, Some (new_id h), w1, t1)"
          and keep: "\<forall>a < next_addr w. heap w1 a = heap w a"
          by blast
        from useItem_compendium_created [OF \<open>resolve w uuid = Some r\<close> None actor cl] keep assms(1)
        show ?thesis
          by (simp add: final_world_def [of "(a, b, c)" for a b c] use_or_warn_heap [OF frame])
      qed
    qed
  qed
qed

lemma useItem_resolve_frame:
  assumes frame: "\<And>d w0. resolve (snd (item_use h d w0)) = resolve w0"
  shows "resolve (final_world (useItem h uuid w)) = resolve w"
proof (cases "resolve w uuid")
  case None
  then show ?thesis by (simp add: useItem_not_found final_world_def)
next
  case (Some r)
  show ?thesis
  proof (cases "resolve_actor w r")
    case None
    with Some show ?thesis by (simp add: useItem_no_actor final_world_def)
  next
    case actor: (Some actor)
    show ?thesis
    proof (cases "d_parent r")
      case (Some a)
      from useItem_embedded [OF \<open>resolve w uuid = Some r\<close> Some, of h] show ?thesis
        by (simp add: final_world_def [of "(a, b, c)" for a b c] use_or_warn_resolve [OF frame])
    next
      case None
      show ?thesis
      proof (cases "create_vetoed h")
        case True
        from clone_to_actor_vetoed [OF True, of actor r w]
        obtain w1 t1 where cl: "clone_to_actor h actor r w = (None, None, w1, t1)"
          and keep: "resolve w1 = resolve w"
          by blast
        from useItem_compendium_vetoed [OF \<open>resolve w uuid = Some r\<close> None actor cl] keep
        show ?thesis by (simp add: final_world_def)
      next
        case False
        from clone_to_actor_created [OF False, of actor r w]
        obtain w1 c t1 where cl: "clone_to_actor h actor r w = (Some c, Some (new_id h), w1, t1)"
          and keep: "resolve w1 = resolve w"
          by blast
        from useItem_compendium_created [OF \<open>resolve w uuid = Some r\<close> None actor cl] keep
        show ?thesis
          by (simp add: final_world_def [of "(a, b, c)" for a b c] use_or_warn_resolve [OF frame])
      qed
    qed
  qed
qed

lemma useItem_creates_clone:
  assumes "resolve w uuid = Some r" and "d_parent r = None" and "resolve_actor w r = Some actor"
  shows "CreateEmbedded actor (delete_id (migrate_exportSource (ensure_stats (heap w (d_source r)))))
           \<in> set (calls (useItem h uuid w))"
proof (cases "create_vetoed h")
  case True
  from clone_to_actor_vetoed [OF True, of actor r w]
  obtain w1 where cl: "clone_to_actor h actor r w =
      (None, None, w1,
       [CreateEmbedded actor (delete_id (migrate_exportSource (ensure_stats (heap w (d_source r)))))])"
    by blast
  from useItem_compendium_vetoed [OF assms cl] show ?thesis by (simp add: calls_def)
next
  case False
  from clone_to_actor_created [OF False, of actor r w]
  obtain w1 c where cl: "clone_to_actor h actor r w =
      (Some c, Some (new_id h), w1,
       [CreateEmbedded actor (delete_id (migrate_exportSource (ensure_stats (heap w (d_source r)))))])"
    by blast
  from useItem_compendium_created [OF assms cl] show ?thesis
    by (simp add: calls_def [of "(a, b, c)" for a b c])
qed

text \<open>
  Claim C7. Let a UUID resolve to a compendium item (not embedded) whose source data
  is an allocated object, and let the host's \<^verbatim>\<open>use()\<close> leave that object and the
  resolution of UUIDs alone. Then after \<^verbatim>\<open>_useItem\<close> the source object is unchanged and
  the UUID resolves to the same document. What the adapter hands to
  \<^verbatim>\<open>createEmbeddedDocuments\<close> is the deep clone of the source with \<^verbatim>\<open>_id\<close> removed
  (and \<^verbatim>\<open>exportSource\<close> moved to \<^verbatim>\<open>_stats\<close>); unless the creation is vetoed, the
  created document is embedded on the actor, is a member of the actor's items, is held
  in a new object different from the source, and is the document \<^verbatim>\<open>_useItem\<close> goes on
  to use. The same holds for the CPR Generic Actions click when the actor lacks the
  item: the source object is unchanged, the clone with \<^verbatim>\<open>_id\<close> removed is created as a
  new document embedded on the actor and appended to the actor's items, that document
  is the one used, and it is still on the actor when the click ends, provided
  \<^verbatim>\<open>use()\<close> leaves the actor's items alone.
\<close>

theorem compendium_source_unchanged:
  assumes "resolve w uuid = Some r" and "d_parent r = None"
    and "d_source r < next_addr w"
    and "\<And>d w0. heap (snd (item_use h d w0)) (d_source r) = heap w0 (d_source r)"
    and "\<And>d w0. resolve (snd (item_use h d w0)) = resolve w0"
  shows
   "heap (final_world (useItem h uuid w)) (d_source r) = heap w (d_source r) \<and>
    resolve (final_world (useItem h uuid w)) uuid = Some r \<and>
    (resolve_actor w r = Some actor \<longrightarrow>
       CreateEmbedded actor (delete_id (migrate_exportSource (ensure_stats (heap w (d_source r)))))
         \<in> set (calls (useItem h uuid w)) \<and>
       data_id (delete_id (migrate_exportSource (ensure_stats (heap w (d_source r))))) = None \<and>
       data_name (delete_id (migrate_exportSource (ensure_stats (heap w (d_source r)))))
         = data_name (heap w (d_source r))) \<and>
    (resolve_actor w r = Some actor \<and> \<not> create_vetoed h \<longrightarrow>
       (\<exists>c w1 t1. clone_to_actor h actor r w = (Some c, Some (new_id h), w1, t1) \<and>
          d_parent c = Some actor \<and> c \<in> set (actor_items w1 actor) \<and>
          d_source c \<noteq> d_source r \<and>
          heap w1 (d_source c) =
            (delete_id (migrate_exportSource (ensure_stats (heap w (d_source r)))))
              \<lparr> data_id := Some (new_id h) \<rparr> \<and>
          heap w1 (d_source r) = heap w (d_source r) \<and>
          actor_items w1 actor = actor_items w actor @ [c] \<and>
          final_world (useItem h uuid w)
            = final_world (use_or_warn h actor (Some (new_id h)) c w1) \<and>
          (d_has_use c \<longrightarrow> ItemUse (d_id c) \<in> set (calls (useItem h uuid w))))) \<and>
    (uuid = getCPRGenericActionsUUID rv \<longrightarrow>
       heap (final_world (onClick h rv this_actor w)) (d_source r) = heap w (d_source r) \<and>
       (this_actor = Some a \<and>
        find (\<lambda>i. d_name i = generic_actions_name rv) (actor_items w a) = None \<longrightarrow>
          CreateEmbedded a (delete_id (heap w (d_source r))) \<in> set (calls (onClick h rv this_actor w)) \<and>
          data_id (delete_id (heap w (d_source r))) = None)) \<and>
    (uuid = getCPRGenericActionsUUID rv \<and> this_actor = Some a \<and>
     find (\<lambda>i. d_name i = generic_actions_name rv) (actor_items w a) = None \<and>
     \<not> create_vetoed h \<longrightarrow>
       (\<exists>c w1. clone_permanent h a r w =
            (Some c, w1, [CreateEmbedded a (delete_id (heap w (d_source r)))]) \<and>
          d_id c = new_id h \<and> d_parent c = Some a \<and>
          d_name c = data_name (heap w (d_source r)) \<and>
          d_source c \<noteq> d_source r \<and>
          heap w1 (d_source c) = (delete_id (heap w (d_source r)))\<lparr> data_id := Some (new_id h) \<rparr> \<and>
          heap w1 (d_source r) = heap w (d_source r) \<and>
          actor_items w1 a = actor_items w a @ [c] \<and>
          final_world (onClick h rv this_actor w)
            = (if d_has_use c then snd (item_use h c w1) else w1) \<and>
          (d_has_use c \<longrightarrow> ItemUse (d_id c) \<in> set (calls (onClick h rv this_actor w))) \<and>
          ((\<forall>d w0. actor_items (snd (item_use h d w0)) a = actor_items w0 a) \<longrightarrow>
             actor_items (final_world (onClick h rv this_actor w)) a = actor_items w a @ [c])))"
proof -
  have heap_same: "heap (final_world (useItem h uuid w)) (d_source r) = heap w (d_source r)"
    using assms(3,4) by (rule useItem_heap_frame)
  have resolve_same: "resolve (final_world (useItem h uuid w)) uuid = Some r"
    using useItem_resolve_frame [of h uuid w] assms(1,5) by simp
  have created: "CreateEmbedded actor (delete_id (migrate_exportSource (ensure_stats (heap w (d_source r)))))
         \<in> set (calls (useItem h uuid w))" if "resolve_actor w r = Some actor"
    using assms(1,2) that by (rule useItem_creates_clone)
  have no_id: "data_id (delete_id d) = None" for d
    by (simp add: delete_id_def)
  have name: "data_name (delete_id (migrate_exportSource (ensure_stats d))) = data_name d" for d
    by (simp add: delete_id_def migrate_exportSource_def ensure_stats_def split: option.splits)
  have clone: "\<exists>c w1 t1. clone_to_actor h actor r w = (Some c, Some (new_id h), w1, t1) \<and>
          d_parent c = Some actor \<and> c \<in> set (actor_items w1 actor) \<and>
          d_source c \<noteq> d_source r \<and>
          heap w1 (d_source c) =
            (delete_id (migrate_exportSource (ensure_stats (heap w (d_source r)))))
              \<lparr> data_id := Some (new_id h) \<rparr> \<and>
          heap w1 (d_source r) = heap w (d_source r) \<and>
          actor_items w1 actor = actor_items w actor @ [c] \<and>
          final_world (useItem h uuid w)
            = final_world (use_or_warn h actor (Some (new_id h)) c w1) \<and>
          (d_has_use c \<longrightarrow> ItemUse (d_id c) \<in> set (calls (useItem h uuid w)))"
    if actor: "resolve_actor w r = Some actor" and ok: "\<not> create_vetoed h"
  proof -
    from clone_to_actor_created [OF ok, of actor r w]
    obtain w1 c t1 where cl: "clone_to_actor h actor r w = (Some c, Some (new_id h), w1, t1)"
      and c: "d_parent c = Some actor" "next_addr w \<le> d_source c"
        "heap w1 (d_source c) =
           (delete_id (migrate_exportSource (ensure_stats (heap w (d_source r)))))
             \<lparr> data_id := Some (new_id h) \<rparr>"
        "actor_items w1 = (actor_items w)(actor := actor_items w actor @ [c])"
        "\<forall>a < next_addr w. heap w1 a = heap w a"
      by blast
    from c assms(3) have m: "c \<in> set (actor_items w1 actor)" "d_source c \<noteq> d_source r"
      "heap w1 (d_source r) = heap w (d_source r)"
      "actor_items w1 actor = actor_items w actor @ [c]"
      by simp_all
    note run = useItem_compendium_created [OF assms(1,2) actor cl]
    have fw: "final_world (useItem h uuid w)
                = final_world (use_or_warn h actor (Some (new_id h)) c w1)"
      by (simp add: run final_world_def [of "(x, y, z)" for x y z])
    have used: "ItemUse (d_id c) \<in> set (calls (useItem h uuid w))" if "d_has_use c"
      using that
      by (simp add: run calls_def [of "(x, y, z)" for x y z] use_or_warn_use)
    from cl c m fw used show ?thesis by blast
  qed
  have click_heap: "heap (final_world (onClick h rv this_actor w)) (d_source r) = heap w (d_source r)"
    using onClick_body_frame [OF assms(3,4)] by (simp add: onClick_final_world)
  have click_created:
    "CreateEmbedded a (delete_id (heap w (d_source r))) \<in> set (calls (onClick h rv this_actor w))"
    if "uuid = getCPRGenericActionsUUID rv" "this_actor = Some a"
      "find (\<lambda>i. d_name i = generic_actions_name rv) (actor_items w a) = None"
    using onClick_body_clone [OF that(3), of r h] assms(1) that(1,2)
      onClick_calls_prefix [of h rv this_actor w]
    by auto
  have click_clone: "\<exists>c w1. clone_permanent h a r w =
            (Some c, w1, [CreateEmbedded a (delete_id (heap w (d_source r)))]) \<and>
          d_id c = new_id h \<and> d_parent c = Some a \<and>
          d_name c = data_name (heap w (d_source r)) \<and>
          d_source c \<noteq> d_source r \<and>
          heap w1 (d_source c) = (delete_id (heap w (d_source r)))\<lparr> data_id := Some (new_id h) \<rparr> \<and>
          heap w1 (d_source r) = heap w (d_source r) \<and>
          actor_items w1 a = actor_items w a @ [c] \<and>
          final_world (onClick h rv this_actor w)
            = (if d_has_use c then snd (item_use h c w1) else w1) \<and>
          (d_has_use c \<longrightarrow> ItemUse (d_id c) \<in> set (calls (onClick h rv this_actor w))) \<and>
          ((\<forall>d w0. actor_items (snd (item_use h d w0)) a = actor_items w0 a) \<longrightarrow>
             actor_items (final_world (onClick h rv this_actor w)) a = actor_items w a @ [c])"
    if u: "uuid = getCPRGenericActionsUUID rv" and ta: "this_actor = Some a"
      and absent: "find (\<lambda>i. d_name i = generic_actions_name rv) (actor_items w a) = None"
      and ok: "\<not> create_vetoed h"
  proof -
    from clone_permanent_created [OF ok, of a r w]
    obtain w1 c where cl: "clone_permanent h a r w =
        (Some c, w1, [CreateEmbedded a (delete_id (heap w (d_source r)))])"
      and c: "d_id c = new_id h" "d_parent c = Some a"
        "d_name c = data_name (heap w (d_source r))" "next_addr w \<le> d_source c"
        "heap w1 (d_source c) = (delete_id (heap w (d_source r)))\<lparr> data_id := Some (new_id h) \<rparr>"
        "actor_items w1 = (actor_items w)(a := actor_items w a @ [c])"
        "\<forall>x < next_addr w. heap w1 x = heap w x"
      by blast
    from c assms(3) have m: "d_source c \<noteq> d_source r"
      "heap w1 (d_source r) = heap w (d_source r)"
      "actor_items w1 a = actor_items w a @ [c]"
      by simp_all
    from assms(1) u have res: "resolve w (getCPRGenericActionsUUID rv) = Some r" by simp
    note body = onClick_body_created [OF absent res cl]
    have fw: "final_world (onClick h rv this_actor w)
                = (if d_has_use c then snd (item_use h c w1) else w1)"
      by (simp add: onClick_final_world ta body final_world_def [of "(x, y, z)" for x y z]
            use_actor_item_world)
    have used: "ItemUse (d_id c) \<in> set (calls (onClick h rv this_actor w))" if "d_has_use c"
    proof -
      from that have "ItemUse (d_id c) \<in> set (calls (onClick_body h rv this_actor w))"
        by (simp add: ta body calls_def [of "(x, y, z)" for x y z] use_actor_item_calls)
      with onClick_calls_prefix [of h rv this_actor w] show ?thesis by blast
    qed
    have stays: "actor_items (final_world (onClick h rv this_actor w)) a = actor_items w a @ [c]"
      if "\<forall>d w0. actor_items (snd (item_use h d w0)) a = actor_items w0 a"
      using that m(3) by (simp add: fw)
    from cl c(1-3,5) m fw used stays show ?thesis by blast
  qed
  have use_created: "resolve_actor w r = Some actor \<longrightarrow>
       CreateEmbedded actor (delete_id (migrate_exportSource (ensure_stats (heap w (d_source r)))))
         \<in> set (calls (useItem h uuid w)) \<and>
       data_id (delete_id (migrate_exportSource (ensure_stats (heap w (d_source r))))) = None \<and>
       data_name (delete_id (migrate_exportSource (ensure_stats (heap w (d_source r)))))
         = data_name (heap w (d_source r))"
    using created no_id name by simp
  have click_call: "uuid = getCPRGenericActionsUUID rv \<longrightarrow>
       heap (final_world (onClick h rv this_actor w)) (d_source r) = heap w (d_source r) \<and>
       (this_actor = Some a \<and>
        find (\<lambda>i. d_name i = generic_actions_name rv) (actor_items w a) = None \<longrightarrow>
          CreateEmbedded a (delete_id (heap w (d_source r))) \<in> set (calls (onClick h rv this_actor w)) \<and>
          data_id (delete_id (heap w (d_source r))) = None)"
    using click_heap click_created no_id by simp
  show ?thesis
    apply (intro conjI)
         apply (rule heap_same)
        apply (rule resolve_same)
       apply (rule use_created)
      apply (rule impI, erule conjE, erule (1) clone)
     apply (rule click_call)
    apply (rule impI, (erule conjE)+, erule (3) click_clone)
    done
qed

theorem compendium_source_unchanged_witness:
  "heap (final_world (useItem quiet_host fireball_uuid hud_world)) 0 = fireball_data \<and>
   resolve (final_world (useItem quiet_host fireball_uuid hud_world)) fireball_uuid = Some fireball \<and>
   CreateEmbedded ''hero''
     \<lparr> data_id = None, data_name = ''Fireball'', data_stats = Some (Some ''world''),
       data_flags = Some None \<rparr>
     \<in> set (calls (useItem quiet_host fireball_uuid hud_world)) \<and>
   ItemUse ''tmp'' \<in> set (calls (useItem quiet_host fireball_uuid hud_world)) \<and>
   getCPRGenericActionsUUID ''modern'' = CPR_GENERIC_ACTIONS_modern \<and>
   resolve click_world CPR_GENERIC_ACTIONS_modern = Some generic_actions \<and>
   heap (final_world (onClick quiet_host ''modern'' (Some ''hero'') click_world)) 0
     = generic_actions_data \<and>
   CreateEmbedded ''hero''
     \<lparr> data_id = None, data_name = ''Generic Actions (2024)'', data_stats = Some None,
       data_flags = None \<rparr>
     \<in> set (calls (onClick quiet_host ''modern'' (Some ''hero'') click_world)) \<and>
   ItemUse ''tmp'' \<in> set (calls (onClick quiet_host ''modern'' (Some ''hero'') click_world)) \<and>
   map d_id (actor_items (final_world (onClick quiet_host ''modern'' (Some ''hero'') click_world)) ''hero'')
     = [''sword'', ''tmp''] \<and>
   map d_parent (actor_items (final_world (onClick quiet_host ''modern'' (Some ''hero'') click_world)) ''hero'')
     = [Some ''hero'', Some ''hero'']"
proof -
  have p: "resolve hud_world fireball_uuid = Some fireball" "d_parent fireball = None"
    "d_source fireball < next_addr hud_world"
    "\<And>d w0. heap (snd (item_use quiet_host d w0)) (d_source fireball) = heap w0 (d_source fireball)"
    "\<And>d w0. resolve (snd (item_use quiet_host d w0)) = resolve w0"
    by (simp_all add: hud_world_def bare_world_def fireball_def quiet_host_def)
  have q: "resolve_actor hud_world fireball = Some ''hero''" "d_source fireball = 0"
    "heap hud_world 0 = fireball_data"
    "delete_id (migrate_exportSource (ensure_stats fireball_data)) =
       \<lparr> data_id = None, data_name = ''Fireball'', data_stats = Some (Some ''world''),
         data_flags = Some None \<rparr>"
    by (simp_all add: hud_world_def bare_world_def fireball_def resolve_actor_def
          fireball_data_def delete_id_def migrate_exportSource_def ensure_stats_def)
  have host: "\<not> create_vetoed quiet_host" "created_has_use quiet_host"
    "new_id quiet_host = ''tmp''"
    "\<forall>d w0. actor_items (snd (item_use quiet_host d w0)) ''hero'' = actor_items w0 ''hero''"
    by (simp_all add: quiet_host_def)
  have u: "getCPRGenericActionsUUID ''modern'' = CPR_GENERIC_ACTIONS_modern"
    by (simp add: getCPRGenericActionsUUID_def)
  have pc: "resolve click_world (getCPRGenericActionsUUID ''modern'') = Some generic_actions"
    "d_parent generic_actions = None"
    "d_source generic_actions < next_addr click_world"
    "\<And>d w0. heap (snd (item_use quiet_host d w0)) (d_source generic_actions)
               = heap w0 (d_source generic_actions)"
    "\<And>d w0. resolve (snd (item_use quiet_host d w0)) = resolve w0"
    by (simp_all add: u click_world_def generic_actions_def quiet_host_def)
  have qc: "find (\<lambda>i. d_name i = generic_actions_name ''modern'') (actor_items click_world ''hero'') = None"
    "d_source generic_actions = 0" "heap click_world 0 = generic_actions_data"
    "actor_items click_world ''hero'' = [sword]" "d_id sword = ''sword''"
    "d_parent sword = Some ''hero''"
    "delete_id generic_actions_data =
       \<lparr> data_id = None, data_name = ''Generic Actions (2024)'', data_stats = Some None,
         data_flags = None \<rparr>"
    by (simp_all add: click_world_def generic_actions_def generic_actions_name_def sword_def
          generic_actions_data_def delete_id_def)
  from compendium_source_unchanged [OF p, of "''hero''" "''modern''" "Some ''hero''" "''hero''"] q host
  have use_part: "heap (final_world (useItem quiet_host fireball_uuid hud_world)) 0 = fireball_data \<and>
     resolve (final_world (useItem quiet_host fireball_uuid hud_world)) fireball_uuid = Some fireball \<and>
     CreateEmbedded ''hero''
       \<lparr> data_id = None, data_name = ''Fireball'', data_stats = Some (Some ''world''),
         data_flags = Some None \<rparr>
       \<in> set (calls (useItem quiet_host fireball_uuid hud_world))"
    by (simp add: fireball_data_def)
  from clone_to_actor_created [OF host(1), of "''hero''" fireball hud_world] host
       compendium_source_unchanged [OF p, of "''hero''" "''modern''" "Some ''hero''" "''hero''"] q
  have use_called: "ItemUse ''tmp'' \<in> set (calls (useItem quiet_host fireball_uuid hud_world))"
    by auto
  from clone_permanent_created [OF host(1), of "''hero''" generic_actions click_world] host
       compendium_source_unchanged
         [OF pc, of "''hero''" "''modern''" "Some ''hero''" "''hero''"] qc
  have click_part:
    "heap (final_world (onClick quiet_host ''modern'' (Some ''hero'') click_world)) 0
       = generic_actions_data \<and>
     CreateEmbedded ''hero''
       \<lparr> data_id = None, data_name = ''Generic Actions (2024)'', data_stats = Some None,
         data_flags = None \<rparr>
       \<in> set (calls (onClick quiet_host ''modern'' (Some ''hero'') click_world)) \<and>
     ItemUse ''tmp'' \<in> set (calls (onClick quiet_host ''modern'' (Some ''hero'') click_world)) \<and>
     map d_id (actor_items (final_world (onClick quiet_host ''modern'' (Some ''hero'') click_world)) ''hero'')
       = [''sword'', ''tmp''] \<and>
     map d_parent (actor_items (final_world (onClick quiet_host ''modern'' (Some ''hero'') click_world)) ''hero'')
       = [Some ''hero'', Some ''hero'']"
    by auto
  from use_part use_called click_part u pc(1) show ?thesis by simp
qed

section \<open>Verification: quick-access population\<close>

lemma populate_slots_enumerate:
  "0 < cols \<Longrightarrow>
   fst ` set items \<subseteq> (\<lambda>j. slotKey (j mod cols) (j div cols)) ` {..<i} \<Longrightarrow>
   populate_slots cols us i items =
     items @ map (\<lambda>(j, u). (slotKey (j mod cols) (j div cols), \<lparr> hc_uuid = u, hc_type = ''Item'' \<rparr>))
               (enumerate i us)"
proof (induction us arbitrary: i items)
  case Nil
  then show ?case by simp
next
  case (Cons u us)
  let ?k = "slotKey (i mod cols) (i div cols)"
  have fresh: "?k \<notin> fst ` set items"
  proof
    assume "?k \<in> fst ` set items"
    with Cons.prems(2) obtain j where "j < i" and "?k = slotKey (j mod cols) (j div cols)" by auto
    with Cons.prems(1) show False using slot_index_inj [of cols i j] by simp
  qed
  have keys: "fst ` set (items @ [(?k, \<lparr> hc_uuid = u, hc_type = ''Item'' \<rparr>)])
                \<subseteq> (\<lambda>j. slotKey (j mod cols) (j div cols)) ` {..<Suc i}"
    using Cons.prems(2) by (auto simp: lessThan_Suc)
  from Cons.IH [OF Cons.prems(1) keys] Cons.prems(1) fresh show ?case
    by (simp add: grid_slotKey_def update_fresh_key)
qed

lemma populate_grid_items:
  assumes "0 < hg_cols grid" and "hg_items grid = None \<or> hg_items grid = Some []"
  shows "populate_grid us grid =
     grid\<lparr> hg_items := Some (map (\<lambda>(j, u). (slotKey (j mod hg_cols grid) (j div hg_cols grid),
                                             \<lparr> hc_uuid = u, hc_type = ''Item'' \<rparr>))
                               (enumerate 0 (take 6 us))) \<rparr>"
proof -
  have "take (min (length us) 6) us = take 6 us" by (simp add: min_def)
  moreover have "populate_slots (hg_cols grid) (take 6 us) 0 [] =
      map (\<lambda>(j, u). (slotKey (j mod hg_cols grid) (j div hg_cols grid),
                      \<lparr> hc_uuid = u, hc_type = ''Item'' \<rparr>)) (enumerate 0 (take 6 us))"
    using populate_slots_enumerate [OF assms(1), of "[]" 0 "take 6 us"] by simp
  ultimately show ?thesis
    using assms(2) by (auto simp: populate_grid_def Let_def)
qed

lemma existingItems_ensure:
  "existingItems state = [] \<Longrightarrow> grids_of (ensure_quickAccess state) = grid # others \<Longrightarrow>
   hg_items grid = None \<or> hg_items grid = Some []"
  by (auto simp: existingItems_def grids_of_def ensure_quickAccess_def Let_def
        split: option.splits list.splits if_splits)

lemma sorted_actions_sorted: "sorted (map (\<lambda>a. collate (snd a)) (sorted_actions collate w us))"
  by (simp add: sorted_actions_def)

lemma set_resolve_actions:
  "set (resolve_actions w us) = {(u, n). u \<in> set us \<and> cw_item_name w u = Some n}"
  unfolding resolve_actions_def
  by (induction us) (auto split: option.splits)

lemma sorted_actions_resolved:
  "set (sorted_actions collate w us) = {(u, n). u \<in> set us \<and> cw_item_name w u = Some n}"
  by (simp add: sorted_actions_def set_resolve_actions)

lemma sorted_actions_length: "length (sorted_actions collate w us) \<le> length us"
proof -
  have "length (List.map_filter f xs) \<le> length xs" for f :: "string \<Rightarrow> (string \<times> string) option" and xs
    by (induction xs) (auto split: option.splits)
  then show ?thesis by (simp add: sorted_actions_def resolve_actions_def)
qed


lemma populateQuickAccess_skipped:
  "actor = None \<or> actionUuids = None \<or> actionUuids = Some [] \<Longrightarrow>
   populateQuickAccess collate actor actionUuids w =
     (w, [ConsoleLog ''Skipping - no actor or action UUIDs''])"
  by (auto simp: populateQuickAccess_def split: option.splits list.splits)

lemma populateQuickAccess_existing:
  "existingItems (cw_persisted w a) \<noteq> [] \<Longrightarrow>
   fst (populateQuickAccess collate (Some a) actionUuids w) = w \<and>
   \<not> list_ex is_save (snd (populateQuickAccess collate (Some a) actionUuids w))"
  by (auto simp: populateQuickAccess_def Let_def split: option.splits list.splits)

lemma populateQuickAccess_populates:
  assumes "\<not> cw_import_fails w" and "us \<noteq> []"
    and "existingItems (cw_persisted w a) = []"
    and "grids_of (ensure_quickAccess (cw_persisted w a)) = grid # others"
  shows "populateQuickAccess collate (Some a) (Some us) w =
     (w\<lparr> cw_persisted := (cw_persisted w)
           (a := (ensure_quickAccess (cw_persisted w a))
                   \<lparr> hs_quickAccess :=
                       Some \<lparr> qa_grids = Some (populate_grid (sorted_uuids collate w us) grid # others) \<rparr> \<rparr>) \<rparr>,
      [ImportCore ''PersistenceManager'', LoadState a, ConsoleLog ''Populating with CPR actions''] @
      map FromUuid us @
      [SaveState a, ConsoleLog ''Populated quickAccess'', Delay 50] @
      (if cw_hud_actor w = Some a then [Refresh] else []))"
  using assms by (cases us) (simp_all add: populateQuickAccess_def Let_def)

lemma populateQuickAccess_saves_only_when_empty:
  assumes "list_ex is_save (snd (populateQuickAccess collate actor actionUuids w))"
  shows "\<exists>a. actor = Some a \<and> existingItems (cw_persisted w a) = []"
proof (cases actor)
  case None
  with assms show ?thesis by (simp add: populateQuickAccess_skipped)
next
  case (Some a)
  with assms populateQuickAccess_existing [of w a collate actionUuids] show ?thesis by auto
qed

text \<open>
  Claim C6. When the persisted state of the actor already has an item in grid 0 of the
  quick access, \<^verbatim>\<open>populateQuickAccess\<close> leaves the whole host state, the persisted HUD
  state included, as it was and does not call \<^verbatim>\<open>saveState\<close>; a call of \<^verbatim>\<open>saveState\<close>
  implies that grid 0 had no items. When it populates (the import of the persistence
  manager succeeds, grid 0 is empty and has a positive number of columns), it saves, and
  grid 0 then holds exactly the first six of the resolved UUIDs in the order of their
  names, so at most \<open>min(n, 6)\<close> of the \<open>n\<close> given; the \<open>i\<close>-th of them is stored
  as \<^verbatim>\<open>{ uuid, type: 'Item' }\<close> under the key \<^verbatim>\<open>"col-row"\<close> with \<open>col = i mod cols\<close>
  and \<open>row = i div cols\<close>. The sorted actions are the given UUIDs that resolve, with
  their names, ordered by the collation of the names.
\<close>

theorem populateQuickAccess_fills_empty_grid:
  "(existingItems (cw_persisted w a) \<noteq> [] \<longrightarrow>
      fst (populateQuickAccess collate (Some a) actionUuids w) = w \<and>
      \<not> list_ex is_save (snd (populateQuickAccess collate (Some a) actionUuids w))) \<and>
   (list_ex is_save (snd (populateQuickAccess collate actor actionUuids w)) \<longrightarrow>
      (\<exists>b. actor = Some b \<and> existingItems (cw_persisted w b) = [])) \<and>
   (\<not> cw_import_fails w \<and> us \<noteq> [] \<and> existingItems (cw_persisted w a) = [] \<and>
    grids_of (ensure_quickAccess (cw_persisted w a)) = grid # others \<and> 0 < hg_cols grid \<longrightarrow>
      SaveState a \<in> set (snd (populateQuickAccess collate (Some a) (Some us) w)) \<and>
      existingItems (cw_persisted (fst (populateQuickAccess collate (Some a) (Some us) w)) a) =
        map (\<lambda>(i, u). (slotKey (i mod hg_cols grid) (i div hg_cols grid),
                        \<lparr> hc_uuid = u, hc_type = ''Item'' \<rparr>))
          (enumerate 0 (take 6 (map fst (sorted_actions collate w us)))) \<and>
      length (take 6 (map fst (sorted_actions collate w us))) \<le> min (length us) 6 \<and>
      sorted (map (\<lambda>a. collate (snd a)) (sorted_actions collate w us)) \<and>
      set (sorted_actions collate w us) = {(u, n). u \<in> set us \<and> cw_item_name w u = Some n})"
proof -
  have populated: "SaveState a \<in> set (snd (populateQuickAccess collate (Some a) (Some us) w)) \<and>
      existingItems (cw_persisted (fst (populateQuickAccess collate (Some a) (Some us) w)) a) =
        map (\<lambda>(i, u). (slotKey (i mod hg_cols grid) (i div hg_cols grid),
                        \<lparr> hc_uuid = u, hc_type = ''Item'' \<rparr>))
          (enumerate 0 (take 6 (map fst (sorted_actions collate w us))))"
    if p: "\<not> cw_import_fails w" "us \<noteq> []" "existingItems (cw_persisted w a) = []"
      "grids_of (ensure_quickAccess (cw_persisted w a)) = grid # others" and c: "0 < hg_cols grid"
  proof -
    from existingItems_ensure [OF p(3,4)]
    have empty: "hg_items grid = None \<or> hg_items grid = Some []" .
    show ?thesis
      by (simp add: populateQuickAccess_populates [OF p] populate_grid_items [OF c empty]
            existingItems_def sorted_uuids_def)
  qed
  have count: "length (take 6 (map fst (sorted_actions collate w us))) \<le> min (length us) 6"
    using sorted_actions_length [of collate w us] by simp
  from populateQuickAccess_existing [of w a collate actionUuids]
       populateQuickAccess_saves_only_when_empty [of collate actor actionUuids w]
       populated count sorted_actions_sorted [of collate w us]
       sorted_actions_resolved [of collate w us]
  show ?thesis by blast
qed

theorem populateQuickAccess_fills_empty_grid_witness:
  "existingItems
     (cw_persisted (fst (populateQuickAccess by_length (Some ''hero'')
                           (Some [help_uuid, gone_uuid, dash_uuid]) populate_world)) ''hero'') =
     [(''0-0'', \<lparr> hc_uuid = dash_uuid, hc_type = ''Item'' \<rparr>),
      (''1-0'', \<lparr> hc_uuid = help_uuid, hc_type = ''Item'' \<rparr>)] \<and>
   fst (populateQuickAccess by_length (Some ''hero'')
          (Some [help_uuid, gone_uuid, dash_uuid]) occupied_world) = occupied_world"
proof -
  have p: "\<not> cw_import_fails populate_world" "[help_uuid, gone_uuid, dash_uuid] \<noteq> []"
    "existingItems (cw_persisted populate_world ''hero'') = []"
    "grids_of (ensure_quickAccess (cw_persisted populate_world ''hero''))
       = \<lparr> hg_rows = 2, hg_cols = 3, hg_items = Some [] \<rparr> # []"
    "0 < hg_cols \<lparr> hg_rows = 2, hg_cols = 3, hg_items = Some [] \<rparr>"
    by (simp_all add: populate_world_def existingItems_def grids_of_def ensure_quickAccess_def)
  have s: "sorted_actions by_length populate_world [help_uuid, gone_uuid, dash_uuid]
             = [(dash_uuid, ''Dash''), (help_uuid, ''Helping'')]"
    by (simp add: sorted_actions_def resolve_actions_def populate_world_def by_length_def
          help_uuid_def gone_uuid_def dash_uuid_def)
  have k0: "slotKey 0 0 = ''0-0''" by code_simp
  have k1: "slotKey 1 0 = ''1-0''" by code_simp
  note k = k0 k1
  have o: "existingItems (cw_persisted occupied_world ''hero'') \<noteq> []"
    by (simp add: occupied_world_def occupied_state_def existingItems_def)
  from populateQuickAccess_fills_empty_grid
         [of populate_world "''hero''" by_length "Some [help_uuid, gone_uuid, dash_uuid]"
             "Some ''hero''" "[help_uuid, gone_uuid, dash_uuid]"
             "\<lparr> hg_rows = 2, hg_cols = 3, hg_items = Some [] \<rparr>" "[]"]
       populateQuickAccess_fills_empty_grid
         [of occupied_world "''hero''" by_length "Some [help_uuid, gone_uuid, dash_uuid]"
             "Some ''hero''" "[help_uuid, gone_uuid, dash_uuid]"
             "\<lparr> hg_rows = 2, hg_cols = 3, hg_items = Some [] \<rparr>" "[]"]
       p s k o
  show ?thesis by (simp add: enumerate_simps)
qed

section \<open>Verification: the order of delays, save and refresh\<close>

lemma first_before_append:
  "\<forall>e \<in> set xs. \<not> P e \<and> \<not> Q e \<Longrightarrow> first_before P Q (xs @ ys) = first_before P Q ys"
  by (induction xs) auto

lemma first_before_no_Q: "\<forall>e \<in> set t. \<not> Q e \<Longrightarrow> first_before P Q t"
  by (induction t) auto

lemma populateQuickAccess_trace:
  "snd (populateQuickAccess collate actor actionUuids w) \<in>
     { [ConsoleLog ''Skipping - no actor or action UUIDs''],
       [ImportCore ''PersistenceManager'',
        ConsoleError ''Error populating quickAccess with CPR actions''] } \<or>
   (\<exists>a us. actor = Some a \<and> actionUuids = Some us \<and>
      (snd (populateQuickAccess collate actor actionUuids w) =
         [ImportCore ''PersistenceManager'', LoadState a,
          ConsoleLog ''Skipping - quickAccess already has items''] \<or>
       snd (populateQuickAccess collate actor actionUuids w) =
         [ImportCore ''PersistenceManager'', LoadState a, ConsoleLog ''Populating with CPR actions''] @
         map FromUuid us @ [ConsoleError ''Error populating quickAccess with CPR actions''] \<or>
       snd (populateQuickAccess collate actor actionUuids w) =
         [ImportCore ''PersistenceManager'', LoadState a, ConsoleLog ''Populating with CPR actions''] @
         map FromUuid us @
         [SaveState a, ConsoleLog ''Populated quickAccess'', Delay 50] @
         (if cw_hud_actor w = Some a then [Refresh] else [])))"
  by (auto simp: populateQuickAccess_def Let_def split: option.splits list.splits)

lemma populate_order:
  "first_before is_save (\<lambda>e. e = Delay 50 \<or> e = Refresh) (snd (populateQuickAccess collate actor actionUuids w)) \<and>
   first_before (\<lambda>e. e = Delay 50) (\<lambda>e. e = Refresh) (snd (populateQuickAccess collate actor actionUuids w)) \<and>
   (\<forall>e \<in> set (snd (populateQuickAccess collate actor actionUuids w)). is_delay e \<longrightarrow> e = Delay 50)"
  (is "?ok (snd (populateQuickAccess collate actor actionUuids w))")
proof -
  let ?t = "snd (populateQuickAccess collate actor actionUuids w)"
  have pre: "\<forall>e \<in> set ([ImportCore ''PersistenceManager'', LoadState a,
                           ConsoleLog ''Populating with CPR actions''] @ map FromUuid us).
               \<not> is_save e \<and> \<not> is_delay e \<and> e \<noteq> Refresh \<and> e \<noteq> Delay 50" for a us
    by auto
  have full: "?ok (([ImportCore ''PersistenceManager'', LoadState a,
              ConsoleLog ''Populating with CPR actions''] @ map FromUuid us) @
            [SaveState a, ConsoleLog ''Populated quickAccess'', Delay 50] @
            (if b then [Refresh] else []))" for a us b
    using pre [of a us]
    by (subst first_before_append, force)+ auto
  have failed: "?ok (([ImportCore ''PersistenceManager'', LoadState a,
              ConsoleLog ''Populating with CPR actions''] @ map FromUuid us) @
            [ConsoleError ''Error populating quickAccess with CPR actions''])" for a us
    using pre [of a us]
    by (subst first_before_append, force)+ auto
  from populateQuickAccess_trace [of collate actor actionUuids w]
  consider (skipped) "?t = [ConsoleLog ''Skipping - no actor or action UUIDs'']"
    | (no_import) "?t = [ImportCore ''PersistenceManager'',
        ConsoleError ''Error populating quickAccess with CPR actions'']"
    | (existing) a where "?t = [ImportCore ''PersistenceManager'', LoadState a,
          ConsoleLog ''Skipping - quickAccess already has items'']"
    | (no_grid) a us where "?t = ([ImportCore ''PersistenceManager'', LoadState a,
          ConsoleLog ''Populating with CPR actions''] @ map FromUuid us) @
          [ConsoleError ''Error populating quickAccess with CPR actions'']"
    | (saved) a us where "?t = ([ImportCore ''PersistenceManager'', LoadState a,
          ConsoleLog ''Populating with CPR actions''] @ map FromUuid us) @
          [SaveState a, ConsoleLog ''Populated quickAccess'', Delay 50] @
          (if cw_hud_actor w = Some a then [Refresh] else [])"
    by auto
  then show ?thesis
  proof cases
    case skipped
    then show ?thesis by simp
  next
    case no_import
    then show ?thesis by simp
  next
    case existing
    then show ?thesis by simp
  next
    case no_grid
    show ?thesis unfolding no_grid by (rule failed)
  next
    case saved
    show ?thesis unfolding saved by (rule full)
  qed
qed


lemma onTokenCreation_stops:
  "actor = None \<or> \<not> cw_enableAutoPopulate w \<or> \<not> cw_cpr_active w \<Longrightarrow>
   snd (onTokenCreation collate actor w) = [] \<or>
   snd (onTokenCreation collate actor w) = [SettingsGet MODULE_ID ''enableCPRActionsAutoPopulate'']"
  by (auto simp: onTokenCreation_def Let_def split: option.splits)

lemma onTokenCreation_proceeds:
  assumes "cw_enableAutoPopulate w" and "cw_cpr_active w"
  shows "\<exists>rest. snd (onTokenCreation collate (Some a) w) =
        [SettingsGet MODULE_ID ''enableCPRActionsAutoPopulate'', Delay 200,
         SettingsGet ''dnd5e'' ''rulesVersion''] @ rest \<and>
      (\<forall>e \<in> set rest. is_delay e \<longrightarrow> e = Delay 50)"
proof -
  have d: "\<forall>e \<in> set (snd (populateQuickAccess collate (Some a) us w)). is_delay e \<longrightarrow> e = Delay 50" for us
    using populate_order [of collate "Some a" us w] by blast
  show ?thesis
    using assms d
    by (auto simp: onTokenCreation_def Let_def split: option.splits prod.splits)
       (metis snd_conv)+
qed

lemma onTokenCreation_trace:
  "snd (onTokenCreation collate actor w) = [] \<or>
   snd (onTokenCreation collate actor w) = [SettingsGet MODULE_ID ''enableCPRActionsAutoPopulate''] \<or>
   (\<exists>rest. snd (onTokenCreation collate actor w) =
        [SettingsGet MODULE_ID ''enableCPRActionsAutoPopulate'', Delay 200,
         SettingsGet ''dnd5e'' ''rulesVersion''] @ rest \<and>
      (\<forall>e \<in> set rest. is_delay e \<longrightarrow> e = Delay 50))"
proof (cases "actor = None \<or> \<not> cw_enableAutoPopulate w \<or> \<not> cw_cpr_active w")
  case True
  from onTokenCreation_stops [OF this] show ?thesis by blast
next
  case False
  then obtain a where "actor = Some a" "cw_enableAutoPopulate w" "cw_cpr_active w" by auto
  with onTokenCreation_proceeds [of w collate a] show ?thesis by blast
qed

text \<open>
  Claim C9. In every run of \<^verbatim>\<open>onTokenCreation\<close> the delay of 200 ms comes before any
  read of the CPR configuration and before any call of the population; a run that
  passes the guards starts with the check of the setting, the delay of 200 ms and only
  then the first read of the configuration, and 200 and 50 are the only delays. In
  every run of \<^verbatim>\<open>populateQuickAccess\<close> the call of \<^verbatim>\<open>saveState\<close> comes before the delay
  of 50 ms and before the refresh, the delay comes before the refresh, and 50 is the
  only delay. The awaits are sequential: each trace is one list of calls in order.
\<close>

theorem delays_save_refresh_in_order:
  "first_before (\<lambda>e. e = Delay 200) is_config_or_populate (snd (onTokenCreation collate actor w)) \<and>
   (cw_enableAutoPopulate w \<and> cw_cpr_active w \<longrightarrow>
      (\<exists>rest. snd (onTokenCreation collate (Some a) w) =
         [SettingsGet MODULE_ID ''enableCPRActionsAutoPopulate'', Delay 200,
          SettingsGet ''dnd5e'' ''rulesVersion''] @ rest)) \<and>
   (\<forall>e \<in> set (snd (onTokenCreation collate actor w)). is_delay e \<longrightarrow> e = Delay 200 \<or> e = Delay 50) \<and>
   first_before is_save (\<lambda>e. e = Delay 50 \<or> e = Refresh)
     (snd (populateQuickAccess collate actor actionUuids w)) \<and>
   first_before (\<lambda>e. e = Delay 50) (\<lambda>e. e = Refresh)
     (snd (populateQuickAccess collate actor actionUuids w)) \<and>
   (\<forall>e \<in> set (snd (populateQuickAccess collate actor actionUuids w)). is_delay e \<longrightarrow> e = Delay 50)"
proof -
  have not_config: "\<not> is_config_or_populate (SettingsGet MODULE_ID ''enableCPRActionsAutoPopulate'')"
    by (simp add: MODULE_ID_def)
  have first: "first_before (\<lambda>e. e = Delay 200) is_config_or_populate (snd (onTokenCreation collate actor w))"
    using onTokenCreation_trace [of collate actor w] not_config by auto
  have proceeds: "\<exists>rest. snd (onTokenCreation collate (Some a) w) =
         [SettingsGet MODULE_ID ''enableCPRActionsAutoPopulate'', Delay 200,
          SettingsGet ''dnd5e'' ''rulesVersion''] @ rest"
    if "cw_enableAutoPopulate w" "cw_cpr_active w"
    using onTokenCreation_proceeds [OF that, of collate a] by blast
  have delays: "\<forall>e \<in> set (snd (onTokenCreation collate actor w)). is_delay e \<longrightarrow> e = Delay 200 \<or> e = Delay 50"
    using onTokenCreation_trace [of collate actor w] by auto
  from first proceeds delays populate_order [of collate actor actionUuids w]
  show ?thesis by blast
qed

theorem delays_save_refresh_in_order_witness:
  "snd (onTokenCreation by_length (Some ''hero'') populate_world) =
     [SettingsGet MODULE_ID ''enableCPRActionsAutoPopulate'', Delay 200,
      SettingsGet ''dnd5e'' ''rulesVersion'',
      SettingsGet MODULE_ID ''selectedCPRActionsModern'',
      ImportCore ''PersistenceManager'', LoadState ''hero'',
      ConsoleLog ''Populating with CPR actions'',
      FromUuid help_uuid, FromUuid gone_uuid, FromUuid dash_uuid,
      SaveState ''hero'', ConsoleLog ''Populated quickAccess'', Delay 50, Refresh] \<and>
   first_before (\<lambda>e. e = Delay 200) is_config_or_populate
     (snd (onTokenCreation by_length (Some ''hero'') populate_world)) \<and>
   first_before is_save (\<lambda>e. e = Delay 50 \<or> e = Refresh)
     (snd (populateQuickAccess by_length (Some ''hero'')
             (Some [help_uuid, gone_uuid, dash_uuid]) populate_world))"
proof -
  have t: "snd (onTokenCreation by_length (Some ''hero'') populate_world) =
     [SettingsGet MODULE_ID ''enableCPRActionsAutoPopulate'', Delay 200,
      SettingsGet ''dnd5e'' ''rulesVersion'',
      SettingsGet MODULE_ID ''selectedCPRActionsModern'',
      ImportCore ''PersistenceManager'', LoadState ''hero'',
      ConsoleLog ''Populating with CPR actions'',
      FromUuid help_uuid, FromUuid gone_uuid, FromUuid dash_uuid,
      SaveState ''hero'', ConsoleLog ''Populated quickAccess'', Delay 50, Refresh]"
    by (simp add: onTokenCreation_def populateQuickAccess_def populate_world_def getCPRConfig_def
          existingItems_def ensure_quickAccess_def grids_of_def Let_def split: prod.splits)
  from delays_save_refresh_in_order
         [of by_length "Some ''hero''" populate_world "''hero''"
             "Some [help_uuid, gone_uuid, dash_uuid]"] t
  show ?thesis by (simp add: MODULE_ID_def)
qed

end
